theory Spec2Isabelle
  imports Complex_Main
begin

section \<open>Auth middleware of the domain services\<close>

text \<open>
  Each service module reads \<^verbatim>\<open>A2A_API_KEY = os.environ.get("A2A_API_KEY")\<close> once at import
  (\<open>None\<close> when the variable is unset) and installs the HTTP middleware
  \<^verbatim>\<open>require_internal_api_key(request, call_next)\<close>. A request is modelled by the two parts the
  middleware looks at: the URL path and the header list (header names as the server stores them,
  in lower case; \<^verbatim>\<open>headers.get\<close> yields the first value stored under the name, or \<open>None\<close>).

  The middleware has two effects: lines printed to standard output, and how the request is
  disposed of. \<open>Call_Next\<close> is \<^verbatim>\<open>return await call_next(request)\<close>. \<open>Http_Exception c\<close> stands
  for \<^verbatim>\<open>raise HTTPException(status_code=c, ...)\<close>; in all three service files that statement
  is commented out, so no equation below produces it.
\<close>

record request =
  path :: string
  headers :: "(string \<times> string) list"

datatype disposition = Call_Next | Http_Exception nat

definition startswith :: "string \<Rightarrow> string \<Rightarrow> bool" where
  "startswith s p = (take (length p) s = p)"

definition truthy :: "string option \<Rightarrow> bool" where
  "truthy v = (case v of None \<Rightarrow> False | Some s \<Rightarrow> s \<noteq> [])"

definition headers_get :: "request \<Rightarrow> string \<Rightarrow> string option" where
  "headers_get r k = map_of (headers r) k"

text \<open>\<^verbatim>\<open>services/payment_service.py\<close>, lines 38 to 52.\<close>

definition require_internal_api_key_payment ::
  "string option \<Rightarrow> request \<Rightarrow> string list \<times> disposition" where
  "require_internal_api_key_payment A2A_API_KEY r =
     (if startswith (path r) ''/.well-known'' then ([], Call_Next)
      else if truthy A2A_API_KEY then
        (let provided_key = headers_get r ''x-internal-api-key'' in
         if provided_key \<noteq> A2A_API_KEY
         then ([''[AUTH WARNING] Missing/invalid API key for path '' @ path r], Call_Next)
         else ([], Call_Next))
      else ([], Call_Next))"

text \<open>\<^verbatim>\<open>services/shipping_service.py\<close>, lines 38 to 52: the same text as the payment service.\<close>

definition require_internal_api_key_shipping ::
  "string option \<Rightarrow> request \<Rightarrow> string list \<times> disposition" where
  "require_internal_api_key_shipping A2A_API_KEY r =
     (if startswith (path r) ''/.well-known'' then ([], Call_Next)
      else if truthy A2A_API_KEY then
        (let provided_key = headers_get r ''x-internal-api-key'' in
         if provided_key \<noteq> A2A_API_KEY
         then ([''[AUTH WARNING] Missing/invalid API key for path '' @ path r], Call_Next)
         else ([], Call_Next))
      else ([], Call_Next))"

text \<open>
  \<^verbatim>\<open>services/inventory_service.py\<close>, lines 38 to 63: two more lines are printed on a mismatch,
  the first 20 characters of the expected key and the received key (\<^verbatim>\<open>'NONE'\<close> when it is
  absent or empty).
\<close>

definition require_internal_api_key_inventory ::
  "string option \<Rightarrow> request \<Rightarrow> string list \<times> disposition" where
  "require_internal_api_key_inventory A2A_API_KEY r =
     (if startswith (path r) ''/.well-known'' then ([], Call_Next)
      else if truthy A2A_API_KEY then
        (let provided_key = headers_get r ''x-internal-api-key'' in
         if provided_key \<noteq> A2A_API_KEY
         then ([''[AUTH WARNING] Missing/invalid API key for path '' @ path r,
                ''              Expected: '' @ take 20 (case A2A_API_KEY of Some k \<Rightarrow> k | None \<Rightarrow> [])
                   @ ''... (truncated)'',
                ''              Received: ''
                   @ (case provided_key of Some k \<Rightarrow> (if k \<noteq> [] then k else ''NONE'')
                      | None \<Rightarrow> ''NONE'')],
               Call_Next)
         else ([], Call_Next))
      else ([], Call_Next))"

section \<open>Strings and number formatting\<close>

text \<open>
  Python strings are modelled as \<open>string\<close>. \<^verbatim>\<open>str.upper\<close>, \<^verbatim>\<open>str.lower\<close> and SQL
  \<^verbatim>\<open>LOWER\<close> are modelled on the ASCII letters; every other character is left as it is.
\<close>

definition lower_char :: "char \<Rightarrow> char" where
  "lower_char c =
     (case map_of (zip ''ABCDEFGHIJKLMNOPQRSTUVWXYZ'' ''abcdefghijklmnopqrstuvwxyz'') c of
        Some d \<Rightarrow> d | None \<Rightarrow> c)"

definition upper_char :: "char \<Rightarrow> char" where
  "upper_char c =
     (case map_of (zip ''abcdefghijklmnopqrstuvwxyz'' ''ABCDEFGHIJKLMNOPQRSTUVWXYZ'') c of
        Some d \<Rightarrow> d | None \<Rightarrow> c)"

definition lower :: "string \<Rightarrow> string" where
  "lower s = map lower_char s"

definition upper :: "string \<Rightarrow> string" where
  "upper s = map upper_char s"

definition quoted :: "string \<Rightarrow> string" where
  "quoted s = [CHR 0x27] @ s @ [CHR 0x27]"

definition digit_char :: "nat \<Rightarrow> char" where
  "digit_char d = ''0123456789'' ! (d mod 10)"

fun str_nat :: "nat \<Rightarrow> string" where
  "str_nat n = (if n < 10 then [digit_char n] else str_nat (n div 10) @ [digit_char (n mod 10)])"

declare str_nat.simps [simp del]

definition str_int :: "int \<Rightarrow> string" where
  "str_int i = (if i < 0 then ''-'' @ str_nat (nat (- i)) else str_nat (nat i))"

text \<open>
  Python's \<^verbatim>\<open>round\<close> and the format specification \<^verbatim>\<open>:.2f\<close> round half to even. A finite
  float is taken as the rational number it denotes, and the division of an integer number of
  cents by 100 as exact: the two-decimal text of \<^verbatim>\<open>cents / 100\<close> is then the text of the
  cents themselves, which is what the float computation prints for every amount below
  \<open>2 ^ 52\<close> cents. Infinities, NaN and the negative zero are outside the model.
\<close>

definition py_round :: "rat \<Rightarrow> int" where
  "py_round x =
     (let f = \<lfloor>x\<rfloor>; d = x - of_int f in
      if d < 1 / 2 then f else if 1 / 2 < d then f + 1 else if even f then f else f + 1)"

definition format_2f :: "rat \<Rightarrow> string" where
  "format_2f x =
     (let n = nat (py_round (\<bar>x\<bar> * 100)) in
      (if x < 0 then ''-'' else '''') @ str_nat (n div 100) @ ''.''
        @ [digit_char (n mod 100 div 10), digit_char (n mod 10)])"

section \<open>Exceptions\<close>

text \<open>
  The exceptions that the modelled code raises, catches or receives from its collaborators.
  \<open>Psycopg2_Error\<close> is any instance of \<^verbatim>\<open>psycopg2.Error\<close>; the four Stripe constructors are
  subclasses of \<^verbatim>\<open>stripe.error.StripeError\<close>; \<open>RetryError e\<close> is \<^verbatim>\<open>tenacity.RetryError\<close>
  whose last attempt raised \<open>e\<close>. All of them are instances of \<^verbatim>\<open>Exception\<close>.
\<close>

datatype exn =
    Psycopg2_Error
  | RuntimeError string
  | TypeError
  | AttributeError
  | APIConnectionError
  | RateLimitError
  | CardError
  | InvalidRequestError
  | RetryError exn

fun is_psycopg2_error :: "exn \<Rightarrow> bool" where
  "is_psycopg2_error Psycopg2_Error = True"
| "is_psycopg2_error _ = False"

fun is_stripe_error :: "exn \<Rightarrow> bool" where
  "is_stripe_error APIConnectionError = True"
| "is_stripe_error RateLimitError = True"
| "is_stripe_error CardError = True"
| "is_stripe_error InvalidRequestError = True"
| "is_stripe_error _ = False"

section \<open>Configuration and the outside world\<close>

text \<open>
  \<^verbatim>\<open>DATABASE_URL\<close> (\<^verbatim>\<open>db/connection.py\<close>) and \<^verbatim>\<open>STRIPE_SECRET_KEY\<close>
  (\<^verbatim>\<open>agents/payment_agent.py\<close>) are read from the environment once, at import; \<open>None\<close> is an
  unset variable.
\<close>

record config =
  DATABASE_URL :: "string option"
  STRIPE_SECRET_KEY :: "string option"

text \<open>
  Modelled from the spec: the declarations of the five tables are not in the repository. The
  records below have the columns that the SQL text of the query modules names, with the meaning
  the spec's list of persisted records gives them. Columns that the tools only print (days,
  costs, locations, dates) are kept as the text Python's \<^verbatim>\<open>str\<close> gives for them. A payment row
  gets its creation timestamp from the store, since \<^verbatim>\<open>insert_payment\<close> supplies none; the
  currency and the customer email may be \<^verbatim>\<open>None\<close>, as \<^verbatim>\<open>get_payment_status\<close> passes on
  whatever the gateway returned.
\<close>

record product =
  product_id :: int
  product_name :: string
  description :: string
  price_cents :: int

record inventory_row =
  inv_product_name :: string
  quantity :: int
  inv_status :: string

record shipping_estimate =
  ship_product_name :: string
  standard_days :: string
  standard_cost :: string
  express_days :: string
  express_cost :: string

record tracking =
  tracking_number :: string
  track_status :: string
  last_location :: string
  eta :: string

record payment =
  stripe_payment_intent_id :: string
  amount_cents :: int
  currency :: "string option"
  customer_email :: "string option"
  pay_status :: string
  created_at :: nat

text \<open>
  What \<^verbatim>\<open>stripe.PaymentIntent.create\<close> and \<^verbatim>\<open>retrieve\<close> return: the attributes the tools read.
  \<^verbatim>\<open>get_payment_status\<close> itself tests \<^verbatim>\<open>intent.amount is not None\<close>, so the amount, and
  likewise the currency, may be absent.
\<close>

record payment_intent =
  intent_id :: string
  intent_status :: string
  intent_amount :: "int option"
  intent_currency :: "string option"
  receipt_email :: "string option"
  client_secret :: string

text \<open>
  The world threaded through every call: the five tables; the behaviour of the database driver
  (\<open>db_fault w k\<close> tells whether the \<open>k\<close>-th driver operation raises \<^verbatim>\<open>psycopg2.Error\<close>) and
  the number of driver operations made so far, which also serves as the store's clock; the
  behaviour of the payment gateway (the outcome of its \<open>k\<close>-th call) and the number of gateway
  calls made so far; the lines written with \<^verbatim>\<open>logger.error\<close>; and the delays passed to
  \<^verbatim>\<open>time.sleep\<close> by the retry wrappers, in order.
\<close>

record world =
  products :: "product list"
  inventory :: "inventory_row list"
  shipping_estimates :: "shipping_estimate list"
  tracking_info :: "tracking list"
  payments :: "payment list"
  db_fault :: "nat \<Rightarrow> bool"
  db_calls :: nat
  stripe_reply :: "nat \<Rightarrow> exn + payment_intent"
  stripe_calls :: nat
  log :: "(string \<times> exn) list"
  slept :: "rat list"

definition logger_error :: "string \<Rightarrow> exn \<Rightarrow> world \<Rightarrow> world" where
  "logger_error msg e w = w\<lparr>log := log w @ [(msg, e)]\<rparr>"

definition sleep :: "rat \<Rightarrow> world \<Rightarrow> world" where
  "sleep d w = w\<lparr>slept := slept w @ [d]\<rparr>"

definition driver_op :: "world \<Rightarrow> bool \<times> world" where
  "driver_op w = (db_fault w (db_calls w), w\<lparr>db_calls := Suc (db_calls w)\<rparr>)"

definition stripe_call :: "world \<Rightarrow> (exn + payment_intent) \<times> world" where
  "stripe_call w = (stripe_reply w (stripe_calls w), w\<lparr>stripe_calls := Suc (stripe_calls w)\<rparr>)"

section \<open>The retry wrapper\<close>

text \<open>
  Every wrapped function of the repository carries the same decorator,
  \<^verbatim>\<open>@retry(stop=stop_after_attempt(3), wait=wait_exponential(multiplier=0.2, min=0.2, max=2))\<close>,
  of the tenacity library. The library is not part of the repository; the loop below follows its
  documented behaviour for these arguments: attempts are numbered from 1; an attempt that returns
  ends the call; an attempt that raises any \<^verbatim>\<open>Exception\<close> is retried (no \<^verbatim>\<open>retry=\<close> predicate
  is given anywhere) unless \<^verbatim>\<open>attempt_number >= max_attempt_number\<close>, in which case, \<^verbatim>\<open>reraise\<close>
  not being set, \<^verbatim>\<open>RetryError\<close> wrapping the last attempt is raised; before the next attempt the
  wrapper sleeps for \<^verbatim>\<open>max(max(0, min), min(multiplier * exp_base ** (attempt_number - 1), max))\<close>
  seconds. Delays are exact rationals. The statistics returned with the result are the number of
  the last attempt and the delays this wrapper chose, in order.
\<close>

record retry_policy =
  attempts :: nat
  multiplier :: rat
  exp_base :: rat
  min_delay :: rat
  max_delay :: rat

record retry_statistics =
  attempt_number :: nat
  delays :: "rat list"

definition wait_exponential :: "retry_policy \<Rightarrow> nat \<Rightarrow> rat" where
  "wait_exponential p n =
     max (max 0 (min_delay p)) (min (multiplier p * exp_base p ^ (n - 1)) (max_delay p))"

function retry_loop ::
  "retry_policy \<Rightarrow> (world \<Rightarrow> (exn + 'a) \<times> world) \<Rightarrow> nat \<Rightarrow> rat list \<Rightarrow> world
     \<Rightarrow> ((exn + 'a) \<times> retry_statistics) \<times> world" where
  "retry_loop p f n ds w =
     (case f w of
        (Inr v, w') \<Rightarrow> ((Inr v, \<lparr>attempt_number = n, delays = ds\<rparr>), w')
      | (Inl e, w') \<Rightarrow>
          if attempts p \<le> n
          then ((Inl (RetryError e), \<lparr>attempt_number = n, delays = ds\<rparr>), w')
          else retry_loop p f (Suc n) (ds @ [wait_exponential p n])
                 (sleep (wait_exponential p n) w'))"
  by pat_completeness auto
termination
  by (relation "measure (\<lambda>(p, f, n, ds, w). attempts p - n)") auto

declare retry_loop.simps [simp del]

definition retry_call ::
  "retry_policy \<Rightarrow> (world \<Rightarrow> (exn + 'a) \<times> world) \<Rightarrow> world
     \<Rightarrow> ((exn + 'a) \<times> retry_statistics) \<times> world" where
  "retry_call p f w = retry_loop p f 1 [] w"

definition retry :: "retry_policy \<Rightarrow> (world \<Rightarrow> (exn + 'a) \<times> world) \<Rightarrow> world \<Rightarrow> (exn + 'a) \<times> world" where
  "retry p f w = (case retry_call p f w of ((r, st), w') \<Rightarrow> (r, w'))"

definition tenacity_policy :: retry_policy where
  "tenacity_policy =
     \<lparr>attempts = 3, multiplier = 1 / 5, exp_base = 2, min_delay = 1 / 5, max_delay = 2\<rparr>"


definition http_status_codes :: "nat list" where
  "http_status_codes = [429, 500, 503, 504]"

section \<open>Database access\<close>

text \<open>
  \<^verbatim>\<open>db/connection.py\<close>. The inner function of \<^verbatim>\<open>get_db\<close> (\<^verbatim>\<open>_connect\<close> in the source) raises
  \<^verbatim>\<open>RuntimeError\<close> when \<^verbatim>\<open>DATABASE_URL\<close> is unset or empty, before any driver operation, and
  otherwise calls \<^verbatim>\<open>psycopg2.connect\<close>; it carries the retry decorator. \<^verbatim>\<open>get_db\<close> logs whatever
  escapes the wrapper and raises it again.
\<close>

definition connect :: "config \<Rightarrow> world \<Rightarrow> (exn + unit) \<times> world" where
  "connect cfg w =
     (if \<not> truthy (DATABASE_URL cfg) then (Inl (RuntimeError ''DATABASE_URL is not set''), w)
      else (case driver_op w of
              (True, w') \<Rightarrow> (Inl Psycopg2_Error, w')
            | (False, w') \<Rightarrow> (Inr (), w')))"

definition get_db :: "config \<Rightarrow> world \<Rightarrow> (exn + unit) \<times> world" where
  "get_db cfg w =
     (case retry tenacity_policy (connect cfg) w of
        (Inr conn, w') \<Rightarrow> (Inr conn, w')
      | (Inl e, w') \<Rightarrow>
          (Inl e, logger_error (if is_psycopg2_error e then ''Database connection error: %s''
                                else ''Unexpected error connecting to database: %s'') e w'))"

text \<open>
  The six functions of \<^verbatim>\<open>db/*_queries.py\<close> have one shape: inside \<^verbatim>\<open>try\<close>, open a connection
  with \<^verbatim>\<open>get_db\<close>, run one statement on a cursor (\<^verbatim>\<open>execute\<close> with \<^verbatim>\<open>fetchone\<close> or \<^verbatim>\<open>commit\<close>;
  one driver operation, which either raises or takes effect as a whole), close and return; the
  two \<^verbatim>\<open>except\<close> clauses log the error under the function's name and raise it again. \<open>db_try\<close> is
  that shape, with the function's name and the statement as arguments.
\<close>

definition reraise_logged :: "string \<Rightarrow> exn \<Rightarrow> world \<Rightarrow> (exn + 'a) \<times> world" where
  "reraise_logged fn e w =
     (Inl e, logger_error ((if is_psycopg2_error e then ''DB Error in '' else ''Unexpected error in '')
                             @ fn @ '': %s'') e w)"

definition db_try ::
  "string \<Rightarrow> config \<Rightarrow> (world \<Rightarrow> 'a \<times> world) \<Rightarrow> world \<Rightarrow> (exn + 'a) \<times> world" where
  "db_try fn cfg stmt w =
     (case get_db cfg w of
        (Inl e, w1) \<Rightarrow> reraise_logged fn e w1
      | (Inr conn, w1) \<Rightarrow>
          (case driver_op w1 of
             (True, w2) \<Rightarrow> reraise_logged fn Psycopg2_Error w2
           | (False, w2) \<Rightarrow> (case stmt w2 of (v, w3) \<Rightarrow> (Inr v, w3))))"

text \<open>
  The statements. \<^verbatim>\<open>WHERE LOWER(name) = LOWER(%s) LIMIT 1\<close> yields the first row, in the
  table's order, whose lower-cased name is the lower-cased argument; \<^verbatim>\<open>WHERE tracking_number = %s\<close>
  compares the strings as they are. Each query returns the selected columns, or \<open>None\<close>
  (\<^verbatim>\<open>fetchone\<close> on an empty result).
\<close>

definition select_product :: "string \<Rightarrow> world \<Rightarrow> product option \<times> world" where
  "select_product name w = (find (\<lambda>r. lower (product_name r) = lower name) (products w), w)"

definition select_inventory :: "string \<Rightarrow> world \<Rightarrow> (int \<times> string) option \<times> world" where
  "select_inventory name w =
     (map_option (\<lambda>r. (quantity r, inv_status r))
        (find (\<lambda>r. lower (inv_product_name r) = lower name) (inventory w)), w)"

definition select_shipping_estimate ::
  "string \<Rightarrow> world \<Rightarrow> (string \<times> string \<times> string \<times> string) option \<times> world" where
  "select_shipping_estimate name w =
     (map_option (\<lambda>r. (standard_days r, standard_cost r, express_days r, express_cost r))
        (find (\<lambda>r. lower (ship_product_name r) = lower name) (shipping_estimates w)), w)"

definition select_tracking :: "string \<Rightarrow> world \<Rightarrow> (string \<times> string \<times> string) option \<times> world" where
  "select_tracking number w =
     (map_option (\<lambda>r. (track_status r, last_location r, eta r))
        (find (\<lambda>r. tracking_number r = number) (tracking_info w)), w)"

definition select_payment :: "string \<Rightarrow> world \<Rightarrow> payment option \<times> world" where
  "select_payment pid w = (find (\<lambda>r. stripe_payment_intent_id r = pid) (payments w), w)"

text \<open>
  \<^verbatim>\<open>insert into payments (...) values (...) on conflict (stripe_payment_intent_id) do update
  set status = excluded.status\<close>: a row with the same intent id gets the new status and nothing
  else; without such a row, the values are appended as a new row, stamped by the store.
\<close>

definition set_status :: "string \<Rightarrow> string \<Rightarrow> payment \<Rightarrow> payment" where
  "set_status pid st r = (if stripe_payment_intent_id r = pid then r\<lparr>pay_status := st\<rparr> else r)"

definition upsert_payment ::
  "string \<Rightarrow> int \<Rightarrow> string option \<Rightarrow> string option \<Rightarrow> string \<Rightarrow> nat \<Rightarrow> payment list
     \<Rightarrow> payment list" where
  "upsert_payment pid amt cur email st now rows =
     (if find (\<lambda>r. stripe_payment_intent_id r = pid) rows = None
      then rows @ [\<lparr>stripe_payment_intent_id = pid, amount_cents = amt, currency = cur,
                    customer_email = email, pay_status = st, created_at = now\<rparr>]
      else map (set_status pid st) rows)"

definition upsert_statement ::
  "string \<Rightarrow> int \<Rightarrow> string option \<Rightarrow> string option \<Rightarrow> string \<Rightarrow> world \<Rightarrow> unit \<times> world" where
  "upsert_statement pid amt cur email st w =
     ((), w\<lparr>payments := upsert_payment pid amt cur email st (db_calls w) (payments w)\<rparr>)"

text \<open>The decorated functions of \<^verbatim>\<open>db/product_queries.py\<close>, \<^verbatim>\<open>db/inventory_queries.py\<close>,
  \<^verbatim>\<open>db/shipping_queries.py\<close> and \<^verbatim>\<open>db/payment_queries.py\<close>.\<close>

definition query_product_by_name ::
  "config \<Rightarrow> string \<Rightarrow> world \<Rightarrow> (exn + product option) \<times> world" where
  "query_product_by_name cfg name =
     retry tenacity_policy (db_try ''query_product_by_name'' cfg (select_product name))"

definition query_inventory ::
  "config \<Rightarrow> string \<Rightarrow> world \<Rightarrow> (exn + (int \<times> string) option) \<times> world" where
  "query_inventory cfg name =
     retry tenacity_policy (db_try ''query_inventory'' cfg (select_inventory name))"

definition query_shipping_estimate ::
  "config \<Rightarrow> string \<Rightarrow> world \<Rightarrow> (exn + (string \<times> string \<times> string \<times> string) option) \<times> world" where
  "query_shipping_estimate cfg name =
     retry tenacity_policy
       (db_try ''query_shipping_estimate'' cfg (select_shipping_estimate name))"

definition query_tracking ::
  "config \<Rightarrow> string \<Rightarrow> world \<Rightarrow> (exn + (string \<times> string \<times> string) option) \<times> world" where
  "query_tracking cfg number =
     retry tenacity_policy (db_try ''query_tracking'' cfg (select_tracking number))"

definition insert_payment ::
  "config \<Rightarrow> string \<Rightarrow> int \<Rightarrow> string option \<Rightarrow> string option \<Rightarrow> string \<Rightarrow> world
     \<Rightarrow> (exn + unit) \<times> world" where
  "insert_payment cfg pid amt cur email st =
     retry tenacity_policy (db_try ''insert_payment'' cfg (upsert_statement pid amt cur email st))"

definition get_payment_by_intent ::
  "config \<Rightarrow> string \<Rightarrow> world \<Rightarrow> (exn + payment option) \<times> world" where
  "get_payment_by_intent cfg pid =
     retry tenacity_policy (db_try ''get_payment_by_intent'' cfg (select_payment pid))"

section \<open>The lookup tools\<close>

text \<open>
  \<^verbatim>\<open>agents/product_catalog_agent.py\<close>, \<^verbatim>\<open>agents/inventory_agent.py\<close> and
  \<^verbatim>\<open>agents/shipping_agent.py\<close>. Each tool runs its query inside \<^verbatim>\<open>try\<close>; \<^verbatim>\<open>except psycopg2.Error\<close>
  and \<^verbatim>\<open>except Exception\<close> log the error and return a fixed sentence. The result type keeps the
  possibility of an exception reaching the caller, so that its absence is a theorem and not a
  matter of typing.
\<close>

definition tool_except :: "string \<Rightarrow> exn \<Rightarrow> world \<Rightarrow> (exn + string) \<times> world" where
  "tool_except fn e w =
     (if is_psycopg2_error e
      then (Inr ''Database error occurred. Please try again later.'',
            logger_error (''DB Error in '' @ fn @ '': %s'') e w)
      else (Inr ''Unexpected error occurred.'',
            logger_error (''Unexpected error in '' @ fn @ '': %s'') e w))"

definition get_product_info :: "config \<Rightarrow> string \<Rightarrow> world \<Rightarrow> (exn + string) \<times> world" where
  "get_product_info cfg name w =
     (case query_product_by_name cfg name w of
        (Inl e, w') \<Rightarrow> tool_except ''get_product_info'' e w'
      | (Inr None, w') \<Rightarrow> (Inr (''No product found for '' @ quoted name @ ''.''), w')
      | (Inr (Some row), w') \<Rightarrow>
          (Inr (''Product: '' @ product_name row @ [CHR 0x0A]
                @ ''Description: '' @ description row @ [CHR 0x0A]
                @ ''Price: $'' @ format_2f (of_int (price_cents row) / 100)), w'))"

definition get_inventory_info :: "config \<Rightarrow> string \<Rightarrow> world \<Rightarrow> (exn + string) \<times> world" where
  "get_inventory_info cfg name w =
     (case query_inventory cfg name w of
        (Inl e, w') \<Rightarrow> tool_except ''get_inventory_info'' e w'
      | (Inr None, w') \<Rightarrow> (Inr (''No inventory information found for '' @ quoted name @ ''.''), w')
      | (Inr (Some (qty, status)), w') \<Rightarrow>
          (Inr (name @ '' is '' @ status @ '' with '' @ str_int qty @ '' units available.''), w'))"

definition get_shipping_estimate ::
  "config \<Rightarrow> string \<Rightarrow> string \<Rightarrow> world \<Rightarrow> (exn + string) \<times> world" where
  "get_shipping_estimate cfg name destination w =
     (case query_shipping_estimate cfg name w of
        (Inl e, w') \<Rightarrow> tool_except ''get_shipping_estimate'' e w'
      | (Inr None, w') \<Rightarrow> (Inr (''No shipping estimate found for '' @ quoted name @ ''.''), w')
      | (Inr (Some (sd, sc, ed, ec)), w') \<Rightarrow>
          (Inr (''Standard: '' @ sd @ '' ('' @ sc @ ''), Express: '' @ ed @ '' ('' @ ec
                @ ''). Destination: '' @ destination @ ''.''), w'))"

definition get_tracking_info :: "config \<Rightarrow> string \<Rightarrow> world \<Rightarrow> (exn + string) \<times> world" where
  "get_tracking_info cfg number w =
     (case query_tracking cfg number w of
        (Inl e, w') \<Rightarrow> tool_except ''get_tracking_info'' e w'
      | (Inr None, w') \<Rightarrow>
          (Inr (''No tracking data found for tracking number '' @ quoted number @ ''.''), w')
      | (Inr (Some (status, location, t)), w') \<Rightarrow>
          (Inr (''Status: '' @ status @ ''. Last seen in '' @ location
                @ ''. Estimated delivery: '' @ t @ ''.''), w'))"

section \<open>The payment tools\<close>

text \<open>
  \<^verbatim>\<open>agents/payment_agent.py\<close>. Both tools carry the retry decorator; the definitions with suffix
  \<open>_body\<close> are the decorated functions. The \<^verbatim>\<open>except\<close> clauses around the gateway call return a
  sentence for every exception, so inside \<^verbatim>\<open>create_payment_intent\<close> nothing reaches the
  decorator. In \<^verbatim>\<open>get_payment_status\<close> the final \<^verbatim>\<open>return\<close> stands outside every \<^verbatim>\<open>try\<close>: there
  \<^verbatim>\<open>f"{amount:.2f}"\<close> raises \<^verbatim>\<open>TypeError\<close> when the amount is \<^verbatim>\<open>None\<close>, and
  \<^verbatim>\<open>intent.currency.upper()\<close> raises \<^verbatim>\<open>AttributeError\<close> when the currency is \<^verbatim>\<open>None\<close>.
  The amount passed to \<^verbatim>\<open>create_payment_intent\<close> is a finite float, taken as a rational, and
  \<^verbatim>\<open>int(round(amount * 100))\<close> is taken on the exact product; the float product can land on the
  other side of a half (2.675 gives 268 in Python and 267 here). The cents only go into the
  write-back row: no returned sentence and no log line contains them.
\<close>

definition stripe_except :: "string \<Rightarrow> string \<Rightarrow> exn \<Rightarrow> world \<Rightarrow> (exn + string) \<times> world" where
  "stripe_except fn apology e w =
     (if e = APIConnectionError
      then (Inr ''Payment service is temporarily unavailable.'',
            logger_error (''Stripe connection error in '' @ fn @ '': %s'') e w)
      else if is_stripe_error e
      then (Inr ''Payment service error occurred. Please try again later.'',
            logger_error (''Stripe error in '' @ fn @ '': %s'') e w)
      else (Inr (apology
                 @ ''The payment system is temporarily unavailable. Please try again later.''),
            logger_error (''Unexpected error in '' @ fn @ '': %s'') e w))"

definition write_back_except :: "string \<Rightarrow> exn \<Rightarrow> world \<Rightarrow> world" where
  "write_back_except fn e w =
     logger_error ((if is_psycopg2_error e then ''DB Error in '' else ''Unexpected DB error in '')
                     @ fn @ '': %s'') e w"

definition create_payment_intent_body ::
  "config \<Rightarrow> rat \<Rightarrow> string \<Rightarrow> string \<Rightarrow> world \<Rightarrow> (exn + string) \<times> world" where
  "create_payment_intent_body cfg amount cur email w =
     (if \<not> truthy (STRIPE_SECRET_KEY cfg)
      then (Inr ''ERROR: Stripe secret key is not configured.'', w)
      else
        (let cents = py_round (amount * 100) in
         case stripe_call w of
           (Inl e, w1) \<Rightarrow>
             stripe_except ''create_payment_intent''
               ''Sorry, I couldn't process your payment request right now. '' e w1
         | (Inr intent, w1) \<Rightarrow>
             (let w2 =
                (case insert_payment cfg (intent_id intent) cents (Some cur) (Some email)
                        (intent_status intent) w1 of
                   (Inr u, w') \<Rightarrow> w'
                 | (Inl e, w') \<Rightarrow> write_back_except ''create_payment_intent'' e w')
              in (Inr (''Created payment intent.'' @ [CHR 0x0A]
                       @ ''ID: '' @ intent_id intent @ [CHR 0x0A]
                       @ ''Status: '' @ intent_status intent @ [CHR 0x0A]
                       @ ''Amount: '' @ format_2f amount @ '' '' @ upper cur @ [CHR 0x0A]
                       @ ''Client secret (for frontend): '' @ client_secret intent), w2))))"

definition create_payment_intent ::
  "config \<Rightarrow> rat \<Rightarrow> string \<Rightarrow> string \<Rightarrow> world \<Rightarrow> (exn + string) \<times> world" where
  "create_payment_intent cfg amount cur email =
     retry tenacity_policy (create_payment_intent_body cfg amount cur email)"

definition get_payment_status_body :: "config \<Rightarrow> string \<Rightarrow> world \<Rightarrow> (exn + string) \<times> world" where
  "get_payment_status_body cfg payment_intent_id w =
     (if \<not> truthy (STRIPE_SECRET_KEY cfg)
      then (Inr ''ERROR: Stripe secret key is not configured.'', w)
      else
        (case stripe_call w of
           (Inl e, w1) \<Rightarrow>
             stripe_except ''get_payment_status''
               ''Sorry, I couldn't retrieve the payment status right now. '' e w1
         | (Inr intent, w1) \<Rightarrow>
             (let w2 =
                (case intent_amount intent of
                   None \<Rightarrow> write_back_except ''get_payment_status'' TypeError w1
                 | Some a \<Rightarrow>
                     (case insert_payment cfg (intent_id intent) a (intent_currency intent)
                             (receipt_email intent) (intent_status intent) w1 of
                        (Inr u, w') \<Rightarrow> w'
                      | (Inl e, w') \<Rightarrow> write_back_except ''get_payment_status'' e w'))
              in (case intent_amount intent of
                    None \<Rightarrow> (Inl TypeError, w2)
                  | Some a \<Rightarrow>
                      (case intent_currency intent of
                         None \<Rightarrow> (Inl AttributeError, w2)
                       | Some c \<Rightarrow>
                           (Inr (''Payment intent '' @ intent_id intent @ '' has status ''
                                 @ quoted (intent_status intent) @ ''. Amount: ''
                                 @ format_2f (of_int a / 100) @ '' '' @ upper c @ ''.''), w2))))))"

definition get_payment_status :: "config \<Rightarrow> string \<Rightarrow> world \<Rightarrow> (exn + string) \<times> world" where
  "get_payment_status cfg payment_intent_id =
     retry tenacity_policy (get_payment_status_body cfg payment_intent_id)"

section \<open>Well-formed policies and a sample world\<close>


text \<open>
  A world for the closed instances below: the rows that the repository's test scripts look up,
  a healthy database and a gateway that cannot be reached. Instances change the fields they need.
\<close>

definition sample_world :: world where
  "sample_world =
     \<lparr>products = [\<lparr>product_id = 1, product_name = ''iPhone 15 Pro'',
                    description = ''Latest iPhone'', price_cents = 99900\<rparr>],
      inventory = [\<lparr>inv_product_name = ''iPhone 15 Pro'', quantity = 12, inv_status = ''in stock''\<rparr>],
      shipping_estimates = [\<lparr>ship_product_name = ''iPhone 15 Pro'', standard_days = ''5-7 days'',
                               standard_cost = ''$5.99'', express_days = ''1-2 days'',
                               express_cost = ''$19.99''\<rparr>],
      tracking_info = [\<lparr>tracking_number = ''1Z999'', track_status = ''In transit'',
                         last_location = ''Oakland'', eta = ''2025-01-15''\<rparr>],
      payments = [],
      db_fault = (\<lambda>k. False), db_calls = 0,
      stripe_reply = (\<lambda>k. Inl APIConnectionError), stripe_calls = 0,
      log = [], slept = []\<rparr>"

definition sample_config :: config where
  "sample_config = \<lparr>DATABASE_URL = Some ''postgresql://localhost/shop'',
                     STRIPE_SECRET_KEY = Some ''sk_test_123''\<rparr>"

text \<open>
  A view \<open>g\<close> of the world is indifferent to database traffic when it ignores the driver's
  operation counter, the sleeping and the logging: the tables and the gateway's state are such
  views.
\<close>

definition db_indifferent :: "(world \<Rightarrow> 'a) \<Rightarrow> bool" where
  "db_indifferent g =
     ((\<forall>w k. g (w\<lparr>db_calls := k\<rparr>) = g w) \<and> (\<forall>d w. g (sleep d w) = g w)
      \<and> (\<forall>m e w. g (logger_error m e w) = g w))"

text \<open>A payment row already in the store, for the instances of the upsert.\<close>

definition sample_payment :: payment where
  "sample_payment = \<lparr>stripe_payment_intent_id = ''pi_1'', amount_cents = 999,
      currency = Some ''usd'', customer_email = Some ''test@example.com'',
      pay_status = ''requires_payment_method'', created_at = 7\<rparr>"


text \<open>The part of the world that the payment gateway owns.\<close>

definition gateway_state :: "world \<Rightarrow> (nat \<Rightarrow> exn + payment_intent) \<times> nat" where
  "gateway_state w = (stripe_reply w, stripe_calls w)"

text \<open>An intent as the gateway returns it, for the instances of the payment tools.\<close>

definition sample_intent :: payment_intent where
  "sample_intent = \<lparr>intent_id = ''pi_1'', intent_status = ''requires_payment_method'',
      intent_amount = Some 999, intent_currency = Some ''usd'',
      receipt_email = Some ''test@example.com'', client_secret = ''pi_1_secret''\<rparr>"

text \<open>A world whose gateway answers and whose store is down.\<close>

definition outage_world :: world where
  "outage_world = sample_world\<lparr>stripe_reply := \<lambda>k. Inr sample_intent, db_fault := \<lambda>k. True\<rparr>"

text \<open>A world whose gateway cannot be reached on the first call and answers from the second.\<close>

definition flaky_gateway_world :: world where
  "flaky_gateway_world =
     sample_world\<lparr>stripe_reply := \<lambda>k. if k = 0 then Inl APIConnectionError else Inr sample_intent\<rparr>"

text \<open>A configuration with neither variable set.\<close>

definition unconfigured :: config where
  "unconfigured = \<lparr>DATABASE_URL = None, STRIPE_SECRET_KEY = None\<rparr>"

text \<open>Worlds whose gateway returns an intent without amount, or without currency.\<close>

definition amountless_world :: world where
  "amountless_world = sample_world\<lparr>stripe_reply := \<lambda>k. Inr (sample_intent\<lparr>intent_amount := None\<rparr>)\<rparr>"

definition currencyless_world :: world where
  "currencyless_world =
     sample_world\<lparr>stripe_reply := \<lambda>k. Inr (sample_intent\<lparr>intent_currency := None\<rparr>)\<rparr>"


section \<open>Properties of the auth middleware\<close>

text \<open>
  Claim C10. With \<^verbatim>\<open>A2A_API_KEY\<close> unset, the middleware of every domain service forwards every
  request, on any path, to the handler and prints nothing; in particular two requests that differ
  only in their headers are treated alike.
\<close>

theorem auth_disabled_when_key_unset:
  "require_internal_api_key_payment None r = ([], Call_Next)
   \<and> require_internal_api_key_shipping None r = ([], Call_Next)
   \<and> require_internal_api_key_inventory None r = ([], Call_Next)
   \<and> require_internal_api_key_payment None (r\<lparr>headers := h1\<rparr>)
       = require_internal_api_key_payment None (r\<lparr>headers := h2\<rparr>)
   \<and> require_internal_api_key_shipping None (r\<lparr>headers := h1\<rparr>)
       = require_internal_api_key_shipping None (r\<lparr>headers := h2\<rparr>)
   \<and> require_internal_api_key_inventory None (r\<lparr>headers := h1\<rparr>)
       = require_internal_api_key_inventory None (r\<lparr>headers := h2\<rparr>)"
  by (simp add: require_internal_api_key_payment_def require_internal_api_key_shipping_def
      require_internal_api_key_inventory_def truthy_def)



text \<open>
  Claim C6, as amended. A request whose path starts with \<^verbatim>\<open>/.well-known\<close> reaches the handler
  with nothing checked and nothing printed. For any other path, when \<^verbatim>\<open>A2A_API_KEY\<close> is set and
  the \<^verbatim>\<open>x-internal-api-key\<close> header is missing or different, the middleware prints the
  \<^verbatim>\<open>[AUTH WARNING]\<close> line for the path and still calls the handler. The services have this one
  mode only: whatever the key and the request, the middleware calls the handler.
\<close>

theorem auth_gate_is_advisory_only:
  "(startswith (path r) ''/.well-known'' \<longrightarrow>
      require_internal_api_key_payment k r = ([], Call_Next)
    \<and> require_internal_api_key_shipping k r = ([], Call_Next)
    \<and> require_internal_api_key_inventory k r = ([], Call_Next))
   \<and> (\<not> startswith (path r) ''/.well-known'' \<and> truthy k
        \<and> headers_get r ''x-internal-api-key'' \<noteq> k \<longrightarrow>
      require_internal_api_key_payment k r
        = ([''[AUTH WARNING] Missing/invalid API key for path '' @ path r], Call_Next)
    \<and> require_internal_api_key_shipping k r
        = ([''[AUTH WARNING] Missing/invalid API key for path '' @ path r], Call_Next)
    \<and> hd (fst (require_internal_api_key_inventory k r))
        = ''[AUTH WARNING] Missing/invalid API key for path '' @ path r
    \<and> snd (require_internal_api_key_inventory k r) = Call_Next)
   \<and> snd (require_internal_api_key_payment k r) = Call_Next
   \<and> snd (require_internal_api_key_shipping k r) = Call_Next
   \<and> snd (require_internal_api_key_inventory k r) = Call_Next"
  by (simp add: require_internal_api_key_payment_def require_internal_api_key_shipping_def
      require_internal_api_key_inventory_def Let_def)

theorem auth_gate_is_advisory_only_witness:
  "\<not> startswith ''/tasks'' ''/.well-known''
   \<and> truthy (Some ''test-secret-key-123'')
   \<and> headers_get \<lparr>path = ''/tasks'', headers = [(''x-internal-api-key'', ''wrong-key-123'')]\<rparr>
        ''x-internal-api-key'' \<noteq> Some ''test-secret-key-123''
   \<and> require_internal_api_key_payment (Some ''test-secret-key-123'')
        \<lparr>path = ''/tasks'', headers = [(''x-internal-api-key'', ''wrong-key-123'')]\<rparr>
       = ([''[AUTH WARNING] Missing/invalid API key for path /tasks''], Call_Next)
   \<and> snd (require_internal_api_key_inventory (Some ''test-secret-key-123'')
        \<lparr>path = ''/tasks'', headers = [(''x-internal-api-key'', ''wrong-key-123'')]\<rparr>)
       = Call_Next"
  using auth_gate_is_advisory_only
    [of "\<lparr>path = ''/tasks'', headers = [(''x-internal-api-key'', ''wrong-key-123'')]\<rparr>"
        "Some ''test-secret-key-123''"]
  by (simp add: startswith_def truthy_def headers_get_def)

text \<open>
  The claim as stated fails: with the key set, a task request with a wrong key, or with none,
  is not answered by the 401 exception; it is forwarded.
\<close>

theorem auth_gate_enforcing_counterexample:
  "\<not> (snd (require_internal_api_key_payment (Some ''test-secret-key-123'')
           \<lparr>path = ''/tasks'', headers = [(''x-internal-api-key'', ''wrong-key-123'')]\<rparr>)
         = Http_Exception 401
       \<or> snd (require_internal_api_key_payment (Some ''test-secret-key-123'')
           \<lparr>path = ''/tasks'', headers = []\<rparr>)
         = Http_Exception 401)"
  by (simp add: require_internal_api_key_payment_def startswith_def truthy_def headers_get_def)

section \<open>Properties of the retry wrapper\<close>






lemma retry_loop_Inr:
  "f w = (Inr v, w') \<Longrightarrow>
   retry_loop p f n ds w = ((Inr v, \<lparr>attempt_number = n, delays = ds\<rparr>), w')"
  by (subst retry_loop.simps) simp

lemma retry_loop_Inl_stop:
  "f w = (Inl e, w') \<Longrightarrow> attempts p \<le> n \<Longrightarrow>
   retry_loop p f n ds w = ((Inl (RetryError e), \<lparr>attempt_number = n, delays = ds\<rparr>), w')"
  by (subst retry_loop.simps) simp

lemma retry_loop_Inl_again:
  "f w = (Inl e, w') \<Longrightarrow> \<not> attempts p \<le> n \<Longrightarrow>
   retry_loop p f n ds w
     = retry_loop p f (Suc n) (ds @ [wait_exponential p n]) (sleep (wait_exponential p n) w')"
  by (subst retry_loop.simps) simp

section \<open>What a retried call leaves unchanged, and what it returns\<close>

lemma retry_loop_preserves:
  "(\<And>w r w'. f w = (r, w') \<Longrightarrow> g w' = g w) \<Longrightarrow> (\<And>d w. g (sleep d w) = g w) \<Longrightarrow>
   g (snd (retry_loop p f n ds w)) = g w"
proof (induction p f n ds w rule: retry_loop.induct)
  case (1 p f n ds w)
  obtain a w1 where fw: "f w = (a, w1)" by (cases "f w")
  have g1: "g w1 = g w" using "1.prems"(1)[OF fw] .
  show ?case
  proof (cases a)
    case (Inr v)
    with fw g1 show ?thesis by (simp add: retry_loop_Inr)
  next
    case (Inl e)
    show ?thesis
    proof (cases "attempts p \<le> n")
      case True
      with fw Inl g1 show ?thesis by (simp add: retry_loop_Inl_stop)
    next
      case False
      have "g (snd (retry_loop p f (Suc n) (ds @ [wait_exponential p n])
                 (sleep (wait_exponential p n) w1))) = g (sleep (wait_exponential p n) w1)"
        using "1.IH"[OF fw[symmetric] Inl False "1.prems"] .
      with fw Inl False g1 "1.prems"(2) show ?thesis by (simp add: retry_loop_Inl_again)
    qed
  qed
qed

lemma retry_preserves:
  assumes "\<And>w r w'. f w = (r, w') \<Longrightarrow> g w' = g w" and "\<And>d w. g (sleep d w) = g w"
  shows "g (snd (retry p f w)) = g w"
proof -
  have "snd (retry p f w) = snd (retry_loop p f 1 [] w)"
    by (simp add: retry_def retry_call_def split: prod.splits)
  then show ?thesis
    using retry_loop_preserves[of f g p 1 "[]" w, OF assms] by simp
qed

lemma retry_loop_result:
  "(\<And>w e w'. I w \<Longrightarrow> f w = (Inl e, w') \<Longrightarrow> I w') \<Longrightarrow> (\<And>d w. I w \<Longrightarrow> I (sleep d w)) \<Longrightarrow>
   I w \<Longrightarrow> retry_loop p f n ds w = ((r, st), w') \<Longrightarrow>
   \<exists>w0. I w0 \<and> ((\<exists>v. r = Inr v \<and> f w0 = (Inr v, w'))
                \<or> (\<exists>e. r = Inl (RetryError e) \<and> f w0 = (Inl e, w')))"
proof (induction p f n ds w rule: retry_loop.induct)
  case (1 p f n ds w)
  obtain a w1 where fw: "f w = (a, w1)" by (cases "f w")
  show ?case
  proof (cases a)
    case (Inr v)
    with fw "1.prems"(3,4) show ?thesis by (auto simp: retry_loop_Inr)
  next
    case (Inl e)
    show ?thesis
    proof (cases "attempts p \<le> n")
      case True
      with fw Inl "1.prems"(3,4) show ?thesis by (auto simp: retry_loop_Inl_stop)
    next
      case False
      have "I w1" using "1.prems"(1)[OF "1.prems"(3)] fw Inl by simp
      then have I1: "I (sleep (wait_exponential p n) w1)"
        by (rule "1.prems"(2))
      have rec: "retry_loop p f (Suc n) (ds @ [wait_exponential p n])
                 (sleep (wait_exponential p n) w1) = ((r, st), w')"
        using "1.prems"(4) fw Inl False by (simp add: retry_loop_Inl_again)
      show ?thesis
        using "1.IH"[OF fw[symmetric] Inl False "1.prems"(1,2) I1 rec] .
    qed
  qed
qed

lemma retry_result:
  assumes "\<And>w e w'. I w \<Longrightarrow> f w = (Inl e, w') \<Longrightarrow> I w'" and "\<And>d w. I w \<Longrightarrow> I (sleep d w)"
    and "I w" and "retry p f w = (r, w')"
  shows "\<exists>w0. I w0 \<and> ((\<exists>v. r = Inr v \<and> f w0 = (Inr v, w'))
                \<or> (\<exists>e. r = Inl (RetryError e) \<and> f w0 = (Inl e, w')))"
proof -
  obtain st where "retry_loop p f 1 [] w = ((r, st), w')"
    using assms(4) by (auto simp: retry_def retry_call_def split: prod.splits)
  from retry_loop_result[of I f w p 1 "[]" r st w', OF assms(1,2,3) this] show ?thesis .
qed

lemma db_indifferent_fields:
  "db_indifferent products" "db_indifferent inventory" "db_indifferent shipping_estimates"
  "db_indifferent tracking_info" "db_indifferent payments"
  "db_indifferent stripe_calls" "db_indifferent stripe_reply"
  by (simp_all add: db_indifferent_def sleep_def logger_error_def)

lemma driver_op_preserves:
  "db_indifferent g \<Longrightarrow> driver_op w = (b, w') \<Longrightarrow> g w' = g w"
  by (auto simp: db_indifferent_def driver_op_def)

lemma connect_preserves:
  "db_indifferent g \<Longrightarrow> connect cfg w = (r, w') \<Longrightarrow> g w' = g w"
  by (auto simp: connect_def split: if_splits prod.splits bool.splits dest: driver_op_preserves)

lemma get_db_preserves:
  assumes g: "db_indifferent g" and r: "get_db cfg w = (r, w')"
  shows "g w' = g w"
proof -
  have "g (snd (retry tenacity_policy (connect cfg) w)) = g w"
  proof (rule retry_preserves)
    show "\<And>w0 r0 w1. connect cfg w0 = (r0, w1) \<Longrightarrow> g w1 = g w0"
      using connect_preserves[OF g] .
    show "\<And>d w0. g (sleep d w0) = g w0"
      using g by (simp add: db_indifferent_def)
  qed
  with r g show ?thesis
    by (auto simp: get_db_def db_indifferent_def split: prod.splits sum.splits)
qed

lemma db_try_preserves_Inl:
  assumes g: "db_indifferent g" and r: "db_try fn cfg stmt w = (Inl e, w')"
  shows "g w' = g w"
proof -
  have lg: "\<And>m e w. g (logger_error m e w) = g w"
    using g by (simp add: db_indifferent_def)
  obtain a w1 where gd: "get_db cfg w = (a, w1)" by (cases "get_db cfg w")
  have g1: "g w1 = g w" using get_db_preserves[OF g gd] .
  show ?thesis
  proof (cases a)
    case (Inl e1)
    with r gd g1 lg show ?thesis
      by (auto simp: db_try_def reraise_logged_def)
  next
    case (Inr c)
    obtain b w2 where dr: "driver_op w1 = (b, w2)" by (cases "driver_op w1")
    have g2: "g w2 = g w1" using driver_op_preserves[OF g dr] .
    from r gd Inr dr g1 g2 lg show ?thesis
      by (cases b) (auto simp: db_try_def reraise_logged_def split: prod.splits)
  qed
qed

lemma db_try_result_Inr:
  assumes g: "db_indifferent g" and r: "db_try fn cfg stmt w = (Inr v, w')"
  shows "\<exists>w2. g w2 = g w \<and> stmt w2 = (v, w')"
proof -
  obtain a w1 where gd: "get_db cfg w = (a, w1)" by (cases "get_db cfg w")
  have g1: "g w1 = g w" using get_db_preserves[OF g gd] .
  show ?thesis
  proof (cases a)
    case (Inl e1)
    with r gd show ?thesis
      by (auto simp: db_try_def reraise_logged_def)
  next
    case (Inr c)
    obtain b w2 where dr: "driver_op w1 = (b, w2)" by (cases "driver_op w1")
    have g2: "g w2 = g w1" using driver_op_preserves[OF g dr] .
    from r gd Inr dr have "\<not> b" "stmt w2 = (v, w')"
      by (cases b; auto simp: db_try_def reraise_logged_def split: prod.splits)+
    with g1 g2 show ?thesis by auto
  qed
qed

lemma retry_Inr:
  fixes v :: "'v"
  assumes r: "retry p f w = (Inr v, w')" and i: "I w"
    and a: "\<And>w e w'. I w \<Longrightarrow> f w = (Inl e, w') \<Longrightarrow> I w'" and b: "\<And>d w. I w \<Longrightarrow> I (sleep d w)"
  obtains w0 where "I w0" "f w0 = (Inr v, w')"
proof -
  have "\<exists>w0. I w0 \<and> ((\<exists>v'. (Inr v :: exn + 'v) = Inr v' \<and> f w0 = (Inr v', w'))
                \<or> (\<exists>e. (Inr v :: exn + 'v) = Inl (RetryError e) \<and> f w0 = (Inl e, w')))"
    using a b i r by (rule retry_result)
  then show ?thesis using that by auto
qed

lemma retry_Inl:
  fixes f :: "world \<Rightarrow> (exn + 'v) \<times> world"
  assumes r: "retry p f w = (Inl e, w')" and i: "I w"
    and a: "\<And>w e w'. I w \<Longrightarrow> f w = (Inl e, w') \<Longrightarrow> I w'" and b: "\<And>d w. I w \<Longrightarrow> I (sleep d w)"
  obtains w0 e0 where "I w0" "f w0 = (Inl e0, w')" "e = RetryError e0"
proof -
  have "\<exists>w0. I w0 \<and> ((\<exists>v'. (Inl e :: exn + 'v) = Inr v' \<and> f w0 = (Inr v', w'))
                \<or> (\<exists>e0. (Inl e :: exn + 'v) = Inl (RetryError e0) \<and> f w0 = (Inl e0, w')))"
    using a b i r by (rule retry_result)
  then show ?thesis using that by auto
qed

lemma retried_db_try_Inr:
  assumes g: "db_indifferent g"
    and r: "retry tenacity_policy (db_try fn cfg stmt) w = (Inr v, w')"
  shows "\<exists>w2. g w2 = g w \<and> stmt w2 = (v, w')"
proof -
  obtain w0 where "g w0 = g w" "db_try fn cfg stmt w0 = (Inr v, w')"
  proof (rule retry_Inr[OF r, where I = "\<lambda>w0. g w0 = g w"])
    show "g w = g w" ..
    show "g w1 = g w" if "g w0 = g w" "db_try fn cfg stmt w0 = (Inl e, w1)" for w0 e w1
      using db_try_preserves_Inl[OF g that(2)] that(1) by simp
    show "g (sleep d w0) = g w" if "g w0 = g w" for d w0
      using g that by (simp add: db_indifferent_def)
  qed
  with db_try_result_Inr[OF g] show ?thesis by metis
qed

lemma retried_db_try_Inl:
  assumes g: "db_indifferent g"
    and r: "retry tenacity_policy (db_try fn cfg stmt) w = (Inl e, w')"
  shows "g w' = g w"
proof -
  obtain w0 e0 where "g w0 = g w" "db_try fn cfg stmt w0 = (Inl e0, w')"
  proof (rule retry_Inl[OF r, where I = "\<lambda>w0. g w0 = g w"])
    show "g w = g w" ..
    show "g w1 = g w" if "g w0 = g w" "db_try fn cfg stmt w0 = (Inl e, w1)" for w0 e w1
      using db_try_preserves_Inl[OF g that(2)] that(1) by simp
    show "g (sleep d w0) = g w" if "g w0 = g w" for d w0
      using g that by (simp add: db_indifferent_def)
  qed
  with db_try_preserves_Inl[OF g] show ?thesis by metis
qed





















section \<open>Bounds of the retry wrappers\<close>




section \<open>Properties of the lookups\<close>

lemma py_round_of_int: "py_round (of_int n) = n"
  by (simp add: py_round_def)

lemma format_2f_cents:
  "format_2f (of_int c / 100) =
     (if c < 0 then ''-'' else '''') @ str_nat (nat \<bar>c\<bar> div 100) @ ''.''
       @ [digit_char (nat \<bar>c\<bar> mod 100 div 10), digit_char (nat \<bar>c\<bar> mod 10)]"
proof -
  have "\<bar>(of_int c / 100 :: rat)\<bar> * 100 = of_int \<bar>c\<bar>"
    by (simp add: abs_divide)
  moreover have "((of_int c / 100 :: rat) < 0) = (c < 0)"
    by (simp add: divide_less_0_iff)
  moreover have "py_round (of_int \<bar>c\<bar>) = \<bar>c\<bar>"
    by (rule py_round_of_int)
  ultimately show ?thesis
    unfolding format_2f_def Let_def by (simp only: if_True if_False)
qed

lemma query_product_by_name_Inr:
  assumes "query_product_by_name cfg name w = (Inr r, w')"
  shows "r = find (\<lambda>p. lower (product_name p) = lower name) (products w)"
  using retried_db_try_Inr[OF db_indifferent_fields(1) assms[unfolded query_product_by_name_def]]
  by (auto simp: select_product_def)

lemma query_inventory_Inr:
  assumes "query_inventory cfg name w = (Inr r, w')"
  shows "r = map_option (\<lambda>r. (quantity r, inv_status r))
               (find (\<lambda>p. lower (inv_product_name p) = lower name) (inventory w))"
  using retried_db_try_Inr[OF db_indifferent_fields(2) assms[unfolded query_inventory_def]]
  by (auto simp: select_inventory_def)

lemma query_shipping_estimate_Inr:
  assumes "query_shipping_estimate cfg name w = (Inr r, w')"
  shows "r = map_option (\<lambda>r. (standard_days r, standard_cost r, express_days r, express_cost r))
               (find (\<lambda>p. lower (ship_product_name p) = lower name) (shipping_estimates w))"
  using retried_db_try_Inr[OF db_indifferent_fields(3) assms[unfolded query_shipping_estimate_def]]
  by (auto simp: select_shipping_estimate_def)

lemma query_tracking_Inr:
  assumes "query_tracking cfg number w = (Inr r, w')"
  shows "r = map_option (\<lambda>r. (track_status r, last_location r, eta r))
               (find (\<lambda>p. tracking_number p = number) (tracking_info w))"
  using retried_db_try_Inr[OF db_indifferent_fields(4) assms[unfolded query_tracking_def]]
  by (auto simp: select_tracking_def)

lemma get_product_info_Inr:
  "fst (query_product_by_name cfg name w) = Inr r \<Longrightarrow>
   fst (get_product_info cfg name w) =
     Inr (case r of
            None \<Rightarrow> ''No product found for '' @ quoted name @ ''.''
          | Some row \<Rightarrow> ''Product: '' @ product_name row @ [CHR 0x0A]
                @ ''Description: '' @ description row @ [CHR 0x0A]
                @ ''Price: $'' @ format_2f (of_int (price_cents row) / 100))"
  by (cases "query_product_by_name cfg name w")
     (simp add: get_product_info_def split: option.splits)

text \<open>
  Claim C7. Whenever the product lookup completes, its result is the first row whose name equals
  the given name up to letter case, and \<^verbatim>\<open>get_product_info\<close> returns exactly the three-line
  text \<^verbatim>\<open>Product: {name}\<close>, \<^verbatim>\<open>Description: {description}\<close>, \<^verbatim>\<open>Price: ${price:.2f}\<close> for a row found,
  and exactly \<^verbatim>\<open>No product found for '{name}'.\<close> for none. The price is the stored number of
  cents divided by 100 with two decimals, which prints the cents themselves: 99900 cents print as
  999.00.
\<close>

theorem get_product_info_format:
  "(fst (query_product_by_name cfg name w) = Inr r \<longrightarrow>
      r = find (\<lambda>p. lower (product_name p) = lower name) (products w)
    \<and> fst (get_product_info cfg name w) =
        Inr (case r of
               None \<Rightarrow> ''No product found for '' @ quoted name @ ''.''
             | Some row \<Rightarrow> ''Product: '' @ product_name row @ [CHR 0x0A]
                   @ ''Description: '' @ description row @ [CHR 0x0A]
                   @ ''Price: $'' @ format_2f (of_int (price_cents row) / 100)))
   \<and> format_2f (of_int c / 100) =
       (if c < 0 then ''-'' else '''') @ str_nat (nat \<bar>c\<bar> div 100) @ ''.''
         @ [digit_char (nat \<bar>c\<bar> mod 100 div 10), digit_char (nat \<bar>c\<bar> mod 10)]
   \<and> format_2f (of_int 99900 / 100) = ''999.00''"
proof -
  have a: "fst (query_product_by_name cfg name w) = Inr r \<Longrightarrow>
      r = find (\<lambda>p. lower (product_name p) = lower name) (products w)"
    using query_product_by_name_Inr[of cfg name w r "snd (query_product_by_name cfg name w)"]
    by (metis prod.collapse)
  have b: "format_2f (of_int 99900 / 100) = ''999.00''"
    by (simp add: format_2f_def py_round_def str_nat.simps digit_char_def)
  show ?thesis
    using a get_product_info_Inr[of cfg name w r] format_2f_cents[of c] b by blast
qed

lemma sample_product_query:
  "fst (query_product_by_name sample_config ''iphone 15 pro'' sample_world)
     = Inr (Some \<lparr>product_id = 1, product_name = ''iPhone 15 Pro'',
                   description = ''Latest iPhone'', price_cents = 99900\<rparr>)"
  by code_simp

theorem get_product_info_format_witness:
  "fst (query_product_by_name sample_config ''iphone 15 pro'' sample_world)
     = Inr (Some \<lparr>product_id = 1, product_name = ''iPhone 15 Pro'',
                   description = ''Latest iPhone'', price_cents = 99900\<rparr>)
   \<and> fst (get_product_info sample_config ''iphone 15 pro'' sample_world)
     = Inr (''Product: iPhone 15 Pro'' @ [CHR 0x0A] @ ''Description: Latest iPhone'' @ [CHR 0x0A]
            @ ''Price: $999.00'')
   \<and> fst (query_product_by_name sample_config ''Foo'' sample_world) = Inr None
   \<and> fst (get_product_info sample_config ''Foo'' sample_world)
     = Inr (''No product found for '' @ [CHR 0x27] @ ''Foo'' @ [CHR 0x27] @ ''.'')"
proof -
  have n: "fst (query_product_by_name sample_config ''Foo'' sample_world) = Inr None"
    by code_simp
  show ?thesis
    using get_product_info_format[of sample_config "''iphone 15 pro''" sample_world
        "Some \<lparr>product_id = 1, product_name = ''iPhone 15 Pro'',
                     description = ''Latest iPhone'', price_cents = 99900\<rparr>" 99900]
      get_product_info_format[of sample_config "''Foo''" sample_world None 99900]
      sample_product_query n
    by (simp add: format_2f_def py_round_def str_nat.simps digit_char_def quoted_def)
qed

lemma get_inventory_info_Inr:
  "fst (query_inventory cfg name w) = Inr r \<Longrightarrow>
   fst (get_inventory_info cfg name w) =
     Inr (case r of
            None \<Rightarrow> ''No inventory information found for '' @ quoted name @ ''.''
          | Some (qty, status) \<Rightarrow>
              name @ '' is '' @ status @ '' with '' @ str_int qty @ '' units available.'')"
  by (cases "query_inventory cfg name w")
     (simp add: get_inventory_info_def split: option.splits prod.splits)

lemma get_shipping_estimate_Inr:
  "fst (query_shipping_estimate cfg name w) = Inr r \<Longrightarrow>
   fst (get_shipping_estimate cfg name destination w) =
     Inr (case r of
            None \<Rightarrow> ''No shipping estimate found for '' @ quoted name @ ''.''
          | Some (sd, sc, ed, ec) \<Rightarrow>
              ''Standard: '' @ sd @ '' ('' @ sc @ ''), Express: '' @ ed @ '' ('' @ ec
                @ ''). Destination: '' @ destination @ ''.'')"
  by (cases "query_shipping_estimate cfg name w")
     (simp add: get_shipping_estimate_def split: option.splits prod.splits)

lemma find_Some_exact:
  "find P xs = Some x \<Longrightarrow> x \<in> set xs \<and> P x"
  by (induction xs) (auto split: if_splits)

text \<open>
  Claim C9, as amended. For two names that differ only in letter case and two worlds with the
  same table, the product, inventory and shipping-estimate lookups that complete return the same
  record; when a record is found, the product text and the shipping text (for one destination)
  are the same for both names. The tracking lookup returns a row only if its tracking number is
  the very string asked for. (The inventory sentence and every not-found sentence repeat the name
  as the caller wrote it, so they follow the caller's spelling.)
\<close>

theorem lookup_case_matching:
  "(lower a = lower b \<and> products w1 = products w2
      \<and> fst (query_product_by_name cfg a w1) = Inr ra
      \<and> fst (query_product_by_name cfg b w2) = Inr rb \<longrightarrow>
        ra = rb
      \<and> (ra \<noteq> None \<longrightarrow> fst (get_product_info cfg a w1) = fst (get_product_info cfg b w2)))
   \<and> (lower a = lower b \<and> inventory w1 = inventory w2
      \<and> fst (query_inventory cfg a w1) = Inr ia
      \<and> fst (query_inventory cfg b w2) = Inr ib \<longrightarrow> ia = ib)
   \<and> (lower a = lower b \<and> shipping_estimates w1 = shipping_estimates w2
      \<and> fst (query_shipping_estimate cfg a w1) = Inr sa
      \<and> fst (query_shipping_estimate cfg b w2) = Inr sb \<longrightarrow>
        sa = sb
      \<and> (sa \<noteq> None \<longrightarrow> fst (get_shipping_estimate cfg a dest w1)
                         = fst (get_shipping_estimate cfg b dest w2)))
   \<and> (fst (query_tracking cfg n w1) = Inr (Some t) \<longrightarrow>
        (\<exists>row \<in> set (tracking_info w1). tracking_number row = n
           \<and> t = (track_status row, last_location row, eta row)))"
proof -
  have qp: "fst (query_product_by_name cfg x w) = Inr r \<Longrightarrow>
      r = find (\<lambda>p. lower (product_name p) = lower x) (products w)" for x w r
    using query_product_by_name_Inr[of cfg x w r] by (metis prod.collapse)
  have qi: "fst (query_inventory cfg x w) = Inr r \<Longrightarrow>
      r = map_option (\<lambda>r. (quantity r, inv_status r))
               (find (\<lambda>p. lower (inv_product_name p) = lower x) (inventory w))" for x w r
    using query_inventory_Inr[of cfg x w r] by (metis prod.collapse)
  have qs: "fst (query_shipping_estimate cfg x w) = Inr r \<Longrightarrow>
      r = map_option (\<lambda>r. (standard_days r, standard_cost r, express_days r, express_cost r))
               (find (\<lambda>p. lower (ship_product_name p) = lower x) (shipping_estimates w))" for x w r
    using query_shipping_estimate_Inr[of cfg x w r] by (metis prod.collapse)
  have qt: "fst (query_tracking cfg x w) = Inr r \<Longrightarrow>
      r = map_option (\<lambda>r. (track_status r, last_location r, eta r))
               (find (\<lambda>p. tracking_number p = x) (tracking_info w))" for x w r
    using query_tracking_Inr[of cfg x w r] by (metis prod.collapse)
  have p1: "ra = rb \<and> (ra \<noteq> None \<longrightarrow> fst (get_product_info cfg a w1) = fst (get_product_info cfg b w2))"
    if "lower a = lower b" "products w1 = products w2"
       "fst (query_product_by_name cfg a w1) = Inr ra" "fst (query_product_by_name cfg b w2) = Inr rb"
  proof -
    have e: "ra = rb" using qp[OF that(3)] qp[OF that(4)] that(1,2) by simp
    show ?thesis
      using e get_product_info_Inr[OF that(3)] get_product_info_Inr[OF that(4)]
      by (auto split: option.splits)
  qed
  have p2: "ia = ib"
    if "lower a = lower b" "inventory w1 = inventory w2"
       "fst (query_inventory cfg a w1) = Inr ia" "fst (query_inventory cfg b w2) = Inr ib"
    using qi[OF that(3)] qi[OF that(4)] that(1,2) by simp
  have p3: "sa = sb \<and> (sa \<noteq> None \<longrightarrow> fst (get_shipping_estimate cfg a dest w1)
                         = fst (get_shipping_estimate cfg b dest w2))"
    if "lower a = lower b" "shipping_estimates w1 = shipping_estimates w2"
       "fst (query_shipping_estimate cfg a w1) = Inr sa"
       "fst (query_shipping_estimate cfg b w2) = Inr sb"
  proof -
    have e: "sa = sb" using qs[OF that(3)] qs[OF that(4)] that(1,2) by simp
    show ?thesis
      using e get_shipping_estimate_Inr[OF that(3), of dest]
        get_shipping_estimate_Inr[OF that(4), of dest]
      by (auto split: option.splits)
  qed
  have p4: "\<exists>row \<in> set (tracking_info w1). tracking_number row = n
           \<and> t = (track_status row, last_location row, eta row)"
    if "fst (query_tracking cfg n w1) = Inr (Some t)"
  proof -
    from qt[OF that] obtain row where f: "find (\<lambda>p. tracking_number p = n) (tracking_info w1) = Some row"
      and t: "t = (track_status row, last_location row, eta row)"
      by (cases "find (\<lambda>p. tracking_number p = n) (tracking_info w1)") auto
    from find_Some_exact[OF f] t show ?thesis by blast
  qed
  show ?thesis
    using p1 p2 p3 p4 by blast
qed

theorem lookup_case_matching_witness:
  "lower ''iphone 15 pro'' = lower ''IPHONE 15 PRO''
   \<and> fst (query_product_by_name sample_config ''iphone 15 pro'' sample_world)
       = Inr (Some \<lparr>product_id = 1, product_name = ''iPhone 15 Pro'',
                     description = ''Latest iPhone'', price_cents = 99900\<rparr>)
   \<and> fst (query_product_by_name sample_config ''IPHONE 15 PRO'' sample_world)
       = Inr (Some \<lparr>product_id = 1, product_name = ''iPhone 15 Pro'',
                     description = ''Latest iPhone'', price_cents = 99900\<rparr>)
   \<and> fst (get_product_info sample_config ''iphone 15 pro'' sample_world)
       = fst (get_product_info sample_config ''IPHONE 15 PRO'' sample_world)
   \<and> fst (query_tracking sample_config ''1Z999'' sample_world)
       = Inr (Some (''In transit'', ''Oakland'', ''2025-01-15''))
   \<and> fst (query_tracking sample_config ''1z999'' sample_world) = Inr None"
proof -
  have e1: "lower ''iphone 15 pro'' = lower ''IPHONE 15 PRO''"
    by code_simp
  have e2: "fst (query_product_by_name sample_config ''iphone 15 pro'' sample_world)
       = Inr (Some \<lparr>product_id = 1, product_name = ''iPhone 15 Pro'',
                     description = ''Latest iPhone'', price_cents = 99900\<rparr>)"
    by code_simp
  have e3: "fst (query_product_by_name sample_config ''IPHONE 15 PRO'' sample_world)
       = Inr (Some \<lparr>product_id = 1, product_name = ''iPhone 15 Pro'',
                     description = ''Latest iPhone'', price_cents = 99900\<rparr>)"
    by code_simp
  have e4: "fst (query_tracking sample_config ''1Z999'' sample_world)
       = Inr (Some (''In transit'', ''Oakland'', ''2025-01-15''))"
    by code_simp
  have e5: "fst (query_tracking sample_config ''1z999'' sample_world) = Inr None"
    by code_simp
  show ?thesis
    using lookup_case_matching[where a = "''iphone 15 pro''" and b = "''IPHONE 15 PRO''"
        and ?w1.0 = sample_world and ?w2.0 = sample_world and cfg = sample_config
        and ra = "Some \<lparr>product_id = 1, product_name = ''iPhone 15 Pro'',
                     description = ''Latest iPhone'', price_cents = 99900\<rparr>"
        and rb = "Some \<lparr>product_id = 1, product_name = ''iPhone 15 Pro'',
                     description = ''Latest iPhone'', price_cents = 99900\<rparr>"
        and n = "''1Z999''" and t = "(''In transit'', ''Oakland'', ''2025-01-15'')"]
      e1 e2 e3 e4 e5
    by simp
qed

text \<open>
  The claim as stated fails on the formatted strings: the inventory lookups for two spellings
  of one name return the same record and different sentences, and so do two not-found answers.
\<close>

theorem lookup_case_matching_counterexample:
  "lower ''iphone 15 pro'' = lower ''IPHONE 15 PRO''
   \<and> fst (query_inventory sample_config ''iphone 15 pro'' sample_world)
       = fst (query_inventory sample_config ''IPHONE 15 PRO'' sample_world)
   \<and> fst (get_inventory_info sample_config ''iphone 15 pro'' sample_world)
       \<noteq> fst (get_inventory_info sample_config ''IPHONE 15 PRO'' sample_world)
   \<and> fst (get_product_info sample_config ''zune'' sample_world)
       \<noteq> fst (get_product_info sample_config ''ZUNE'' sample_world)"
  by code_simp

section \<open>Properties of the payment store\<close>

lemma insert_payment_Inr:
  assumes "insert_payment cfg pid amt cur email st w = (Inr u, w')"
  shows "\<exists>t. payments w' = upsert_payment pid amt cur email st t (payments w)"
proof -
  from retried_db_try_Inr[OF db_indifferent_fields(5) assms[unfolded insert_payment_def]]
  obtain w2 where "payments w2 = payments w" "upsert_statement pid amt cur email st w2 = (u, w')"
    by blast
  then have "payments w' = upsert_payment pid amt cur email st (db_calls w2) (payments w)"
    by (auto simp: upsert_statement_def)
  then show ?thesis ..
qed

text \<open>
  Claim C8. When \<^verbatim>\<open>insert_payment\<close> returns normally and the intent id is already in the payments
  table, the table afterwards is the old one with \<open>set_status\<close> applied to each row: the row
  with that id gets the new status, and its id, amount, currency, customer email and creation
  timestamp stay as they were (as does every other row). When the id is new, one complete row
  with the supplied values and the store's timestamp is appended.
\<close>

theorem insert_payment_upsert:
  "(fst (insert_payment cfg pid amt cur email st w) = Inr () \<longrightarrow>
      (find (\<lambda>r. stripe_payment_intent_id r = pid) (payments w) \<noteq> None \<longrightarrow>
         payments (snd (insert_payment cfg pid amt cur email st w))
           = map (set_status pid st) (payments w))
    \<and> (find (\<lambda>r. stripe_payment_intent_id r = pid) (payments w) = None \<longrightarrow>
         (\<exists>t. payments (snd (insert_payment cfg pid amt cur email st w))
           = payments w @ [\<lparr>stripe_payment_intent_id = pid, amount_cents = amt, currency = cur,
                             customer_email = email, pay_status = st, created_at = t\<rparr>])))
   \<and> stripe_payment_intent_id (set_status pid st r) = stripe_payment_intent_id r
   \<and> amount_cents (set_status pid st r) = amount_cents r
   \<and> currency (set_status pid st r) = currency r
   \<and> customer_email (set_status pid st r) = customer_email r
   \<and> created_at (set_status pid st r) = created_at r
   \<and> pay_status (set_status pid st r)
       = (if stripe_payment_intent_id r = pid then st else pay_status r)"
proof -
  have a: "\<exists>t. payments (snd (insert_payment cfg pid amt cur email st w))
              = upsert_payment pid amt cur email st t (payments w)"
    if "fst (insert_payment cfg pid amt cur email st w) = Inr ()"
    using insert_payment_Inr[of cfg pid amt cur email st w "()"
        "snd (insert_payment cfg pid amt cur email st w)"] that
    by (metis prod.collapse)
  have b: "stripe_payment_intent_id (set_status pid st r) = stripe_payment_intent_id r"
    "amount_cents (set_status pid st r) = amount_cents r"
    "currency (set_status pid st r) = currency r"
    "customer_email (set_status pid st r) = customer_email r"
    "created_at (set_status pid st r) = created_at r"
    "pay_status (set_status pid st r)
       = (if stripe_payment_intent_id r = pid then st else pay_status r)"
    by (simp_all add: set_status_def)
  show ?thesis
    using a b by (auto simp: upsert_payment_def)
qed

theorem insert_payment_upsert_witness:
  "fst (insert_payment sample_config ''pi_1'' 5000 (Some ''eur'') None ''succeeded''
          (sample_world\<lparr>payments := [sample_payment]\<rparr>)) = Inr ()
   \<and> find (\<lambda>r. stripe_payment_intent_id r = ''pi_1'') [sample_payment] \<noteq> None
   \<and> payments (snd (insert_payment sample_config ''pi_1'' 5000 (Some ''eur'') None ''succeeded''
          (sample_world\<lparr>payments := [sample_payment]\<rparr>)))
       = [sample_payment\<lparr>pay_status := ''succeeded''\<rparr>]
   \<and> fst (insert_payment sample_config ''pi_2'' 5000 (Some ''eur'') None ''succeeded''
          (sample_world\<lparr>payments := [sample_payment]\<rparr>)) = Inr ()
   \<and> find (\<lambda>r. stripe_payment_intent_id r = ''pi_2'') [sample_payment] = None
   \<and> payments (snd (insert_payment sample_config ''pi_2'' 5000 (Some ''eur'') None ''succeeded''
          (sample_world\<lparr>payments := [sample_payment]\<rparr>)))
       = [sample_payment, \<lparr>stripe_payment_intent_id = ''pi_2'', amount_cents = 5000,
            currency = Some ''eur'', customer_email = None, pay_status = ''succeeded'',
            created_at = 2\<rparr>]"
proof -
  have e1: "fst (insert_payment sample_config ''pi_1'' 5000 (Some ''eur'') None ''succeeded''
          (sample_world\<lparr>payments := [sample_payment]\<rparr>)) = Inr ()"
    by code_simp
  have e2: "find (\<lambda>r. stripe_payment_intent_id r = ''pi_1'') [sample_payment] \<noteq> None"
    by code_simp
  have e3: "fst (insert_payment sample_config ''pi_2'' 5000 (Some ''eur'') None ''succeeded''
          (sample_world\<lparr>payments := [sample_payment]\<rparr>)) = Inr ()"
    by code_simp
  have e4: "find (\<lambda>r. stripe_payment_intent_id r = ''pi_2'') [sample_payment] = None"
    by code_simp
  have e5: "payments (snd (insert_payment sample_config ''pi_2'' 5000 (Some ''eur'') None
          ''succeeded'' (sample_world\<lparr>payments := [sample_payment]\<rparr>)))
       = [sample_payment, \<lparr>stripe_payment_intent_id = ''pi_2'', amount_cents = 5000,
            currency = Some ''eur'', customer_email = None, pay_status = ''succeeded'',
            created_at = 2\<rparr>]"
    by code_simp
  have e6: "payments (sample_world\<lparr>payments := [sample_payment]\<rparr>) = [sample_payment]"
    by simp
  have e7: "set_status ''pi_1'' ''succeeded'' sample_payment
              = sample_payment\<lparr>pay_status := ''succeeded''\<rparr>"
    by (simp add: set_status_def sample_payment_def)
  show ?thesis
    using insert_payment_upsert[of sample_config "''pi_1''" 5000 "Some ''eur''" None
        "''succeeded''" "sample_world\<lparr>payments := [sample_payment]\<rparr>" sample_payment]
      e1 e2 e3 e4 e5 e6 e7
    by simp
qed

section \<open>Properties of the payment tools\<close>

lemma retry_returns_at_once:
  assumes "f w = (Inr v, w')"
  shows "retry p f w = (Inr v, w')"
  using retry_loop_Inr[where f = f and w = w and p = p and n = 1 and ds = "[]", OF assms]
  by (simp add: retry_def retry_call_def)

lemma create_payment_intent_body_gateway_ok:
  assumes k: "truthy (STRIPE_SECRET_KEY cfg)" and g: "stripe_reply w (stripe_calls w) = Inr intent"
  shows "create_payment_intent_body cfg amount cur email w =
     (Inr (''Created payment intent.'' @ [CHR 0x0A]
           @ ''ID: '' @ intent_id intent @ [CHR 0x0A]
           @ ''Status: '' @ intent_status intent @ [CHR 0x0A]
           @ ''Amount: '' @ format_2f amount @ '' '' @ upper cur @ [CHR 0x0A]
           @ ''Client secret (for frontend): '' @ client_secret intent),
      (case insert_payment cfg (intent_id intent) (py_round (amount * 100)) (Some cur) (Some email)
              (intent_status intent) (w\<lparr>stripe_calls := Suc (stripe_calls w)\<rparr>) of
         (Inr u, w') \<Rightarrow> w'
       | (Inl e, w') \<Rightarrow> write_back_except ''create_payment_intent'' e w'))"
  using k g by (simp add: create_payment_intent_body_def stripe_call_def Let_def)

lemma get_payment_status_body_gateway_ok:
  assumes k: "truthy (STRIPE_SECRET_KEY cfg)" and g: "stripe_reply w (stripe_calls w) = Inr intent"
    and a: "intent_amount intent = Some a" and c: "intent_currency intent = Some c"
  shows "get_payment_status_body cfg pid w =
     (Inr (''Payment intent '' @ intent_id intent @ '' has status ''
           @ quoted (intent_status intent) @ ''. Amount: ''
           @ format_2f (of_int a / 100) @ '' '' @ upper c @ ''.''),
      (case insert_payment cfg (intent_id intent) a (intent_currency intent)
              (receipt_email intent) (intent_status intent)
              (w\<lparr>stripe_calls := Suc (stripe_calls w)\<rparr>) of
         (Inr u, w') \<Rightarrow> w'
       | (Inl e, w') \<Rightarrow> write_back_except ''get_payment_status'' e w'))"
  using k g a c by (simp add: get_payment_status_body_def stripe_call_def Let_def)


lemma retry_loop_two_runs:
  "(\<And>w v. G w = G v \<Longrightarrow> fst (f w) = fst (f v) \<and> G (snd (f w)) = G (snd (f v))) \<Longrightarrow>
   (\<And>d w. G (sleep d w) = G w) \<Longrightarrow> G w = G v \<Longrightarrow>
   fst (fst (retry_loop p f n ds w)) = fst (fst (retry_loop p f n ds v))"
proof (induction p f n ds w arbitrary: v rule: retry_loop.induct)
  case (1 p f n ds w)
  obtain a w1 where fw: "f w = (a, w1)" by (cases "f w")
  obtain b v1 where fv: "f v = (b, v1)" by (cases "f v")
  from "1.prems"(1)[OF "1.prems"(3)] fw fv have ab: "a = b" and g1: "G w1 = G v1"
    by simp_all
  show ?case
  proof (cases a)
    case (Inr x)
    have "f w = (Inr x, w1)" "f v = (Inr x, v1)" using fw fv ab Inr by simp_all
    then show ?thesis
      using retry_loop_Inr[where f = f and w = w and v = x and w' = w1 and p = p and n = n
          and ds = ds]
        retry_loop_Inr[where f = f and w = v and v = x and w' = v1 and p = p and n = n
          and ds = ds]
      by simp
  next
    case (Inl e)
    have fwe: "f w = (Inl e, w1)" and fve: "f v = (Inl e, v1)" using fw fv ab Inl by simp_all
    show ?thesis
    proof (cases "attempts p \<le> n")
      case True
      show ?thesis
        using retry_loop_Inl_stop[where f = f and w = w and ds = ds, OF fwe True]
          retry_loop_Inl_stop[where f = f and w = v and ds = ds, OF fve True]
        by simp
    next
      case False
      have g2: "G (sleep (wait_exponential p n) w1) = G (sleep (wait_exponential p n) v1)"
        using g1 "1.prems"(2) by simp
      have "fst (fst (retry_loop p f (Suc n) (ds @ [wait_exponential p n])
                        (sleep (wait_exponential p n) w1)))
          = fst (fst (retry_loop p f (Suc n) (ds @ [wait_exponential p n])
                        (sleep (wait_exponential p n) v1)))"
        using "1.IH"[OF fw[symmetric] Inl False "1.prems"(1,2) g2] .
      moreover have "retry_loop p f n ds w
          = retry_loop p f (Suc n) (ds @ [wait_exponential p n]) (sleep (wait_exponential p n) w1)"
        using retry_loop_Inl_again[where f = f and w = w, OF fwe False] .
      moreover have "retry_loop p f n ds v
          = retry_loop p f (Suc n) (ds @ [wait_exponential p n]) (sleep (wait_exponential p n) v1)"
        using retry_loop_Inl_again[where f = f and w = v, OF fve False] .
      ultimately show ?thesis by simp
    qed
  qed
qed

lemma retry_two_runs:
  assumes "\<And>w v. G w = G v \<Longrightarrow> fst (f w) = fst (f v) \<and> G (snd (f w)) = G (snd (f v))"
    and "\<And>d w. G (sleep d w) = G w" and "G w = G v"
  shows "fst (retry p f w) = fst (retry p f v)"
proof -
  have "fst (retry p f x) = fst (fst (retry_loop p f 1 [] x))" for x
    by (simp add: retry_def retry_call_def split: prod.splits)
  then show ?thesis
    using retry_loop_two_runs[of G f w v p 1 "[]", OF assms] by simp
qed

lemma insert_payment_preserves:
  assumes g: "db_indifferent g" and p: "\<And>w f. g (w\<lparr>payments := f\<rparr>) = g w"
  shows "g (snd (insert_payment cfg pid amt cur email st w)) = g w"
  unfolding insert_payment_def
proof (rule retry_preserves)
  show "g (sleep d w0) = g w0" for d w0
    using g by (simp add: db_indifferent_def)
  show "g w1 = g w0"
    if "db_try ''insert_payment'' cfg (upsert_statement pid amt cur email st) w0 = (r, w1)"
    for w0 r w1
  proof (cases r)
    case (Inl e)
    with that db_try_preserves_Inl[OF g] show ?thesis by metis
  next
    case (Inr u)
    with that db_try_result_Inr[OF g] obtain w2 where "g w2 = g w0"
      "upsert_statement pid amt cur email st w2 = (u, w1)" by metis
    then show ?thesis using p by (auto simp: upsert_statement_def)
  qed
qed

lemma gateway_state_indifferent:
  "db_indifferent gateway_state" "gateway_state (w\<lparr>payments := f\<rparr>) = gateway_state w"
  by (simp_all add: db_indifferent_def gateway_state_def sleep_def logger_error_def)

lemma gateway_state_write_back:
  "gateway_state (write_back_except fn e w) = gateway_state w"
  by (simp add: write_back_except_def logger_error_def gateway_state_def)

lemma gateway_state_insert_payment:
  "gateway_state (snd (insert_payment cfg pid amt cur email st w)) = gateway_state w"
  by (rule insert_payment_preserves[OF gateway_state_indifferent(1)])
     (rule gateway_state_indifferent(2))

lemma gateway_state_insert_payment_eq:
  "insert_payment cfg pid amt cur email st w = (r, w') \<Longrightarrow> gateway_state w' = gateway_state w"
  using gateway_state_insert_payment[of cfg pid amt cur email st w] by simp

lemma gateway_state_stripe_except:
  "fst (stripe_except fn t e w) = fst (stripe_except fn t e v)"
  "gateway_state (snd (stripe_except fn t e w)) = gateway_state w"
  by (simp_all add: stripe_except_def logger_error_def gateway_state_def)

lemma gateway_state_stripe_call:
  "gateway_state w = gateway_state v \<Longrightarrow>
   fst (stripe_call w) = fst (stripe_call v)
   \<and> gateway_state (snd (stripe_call w)) = gateway_state (snd (stripe_call v))"
  by (simp add: stripe_call_def gateway_state_def)

lemma create_payment_intent_body_two_runs:
  assumes "gateway_state w = gateway_state v"
  shows "fst (create_payment_intent_body cfg amount cur email w)
           = fst (create_payment_intent_body cfg amount cur email v)
         \<and> gateway_state (snd (create_payment_intent_body cfg amount cur email w))
           = gateway_state (snd (create_payment_intent_body cfg amount cur email v))"
proof (cases "truthy (STRIPE_SECRET_KEY cfg)")
  case False
  with assms show ?thesis by (simp add: create_payment_intent_body_def)
next
  case True
  obtain a w1 where sw: "stripe_call w = (a, w1)" by (cases "stripe_call w")
  obtain b v1 where sv: "stripe_call v = (b, v1)" by (cases "stripe_call v")
  from gateway_state_stripe_call[OF assms] sw sv
  have ab: "a = b" and g1: "gateway_state w1 = gateway_state v1" by simp_all
  show ?thesis
  proof (cases a)
    case (Inl e)
    have se: "stripe_call w = (Inl e, w1)" "stripe_call v = (Inl e, v1)"
      using sw sv ab Inl by simp_all
    show ?thesis
      using True g1 gateway_state_stripe_except(1)[of _ _ e w1 v1]
      by (simp add: create_payment_intent_body_def se gateway_state_stripe_except(2))
  next
    case (Inr intent)
    have se: "stripe_call w = (Inr intent, w1)" "stripe_call v = (Inr intent, v1)"
      using sw sv ab Inr by simp_all
    show ?thesis
      using True g1
      by (auto simp: create_payment_intent_body_def se Let_def gateway_state_write_back
          split: prod.splits sum.splits dest!: gateway_state_insert_payment_eq)
  qed
qed

lemma get_payment_status_body_two_runs:
  assumes "gateway_state w = gateway_state v"
  shows "fst (get_payment_status_body cfg pid w) = fst (get_payment_status_body cfg pid v)
         \<and> gateway_state (snd (get_payment_status_body cfg pid w))
           = gateway_state (snd (get_payment_status_body cfg pid v))"
proof (cases "truthy (STRIPE_SECRET_KEY cfg)")
  case False
  with assms show ?thesis by (simp add: get_payment_status_body_def)
next
  case True
  obtain a w1 where sw: "stripe_call w = (a, w1)" by (cases "stripe_call w")
  obtain b v1 where sv: "stripe_call v = (b, v1)" by (cases "stripe_call v")
  from gateway_state_stripe_call[OF assms] sw sv
  have ab: "a = b" and g1: "gateway_state w1 = gateway_state v1" by simp_all
  show ?thesis
  proof (cases a)
    case (Inl e)
    have se: "stripe_call w = (Inl e, w1)" "stripe_call v = (Inl e, v1)"
      using sw sv ab Inl by simp_all
    show ?thesis
      using True g1 gateway_state_stripe_except(1)[of _ _ e w1 v1]
      by (simp add: get_payment_status_body_def se gateway_state_stripe_except(2))
  next
    case (Inr intent)
    have se: "stripe_call w = (Inr intent, w1)" "stripe_call v = (Inr intent, v1)"
      using sw sv ab Inr by simp_all
    show ?thesis
      using True g1
      by (auto simp: get_payment_status_body_def se Let_def gateway_state_write_back
          split: prod.splits sum.splits option.splits dest!: gateway_state_insert_payment_eq)
  qed
qed

lemma payment_tools_two_runs:
  assumes "stripe_reply w = stripe_reply v" "stripe_calls w = stripe_calls v"
  shows "fst (create_payment_intent cfg amount cur email w)
           = fst (create_payment_intent cfg amount cur email v)"
    and "fst (get_payment_status cfg pid w) = fst (get_payment_status cfg pid v)"
proof -
  have g: "gateway_state w = gateway_state v"
    using assms by (simp add: gateway_state_def)
  have s: "gateway_state (sleep d x) = gateway_state x" for d x
    by (simp add: gateway_state_def sleep_def)
  show "fst (create_payment_intent cfg amount cur email w)
           = fst (create_payment_intent cfg amount cur email v)"
    unfolding create_payment_intent_def
    by (rule retry_two_runs[where G = gateway_state, OF _ s g])
       (rule create_payment_intent_body_two_runs)
  show "fst (get_payment_status cfg pid w) = fst (get_payment_status cfg pid v)"
    unfolding get_payment_status_def
    by (rule retry_two_runs[where G = gateway_state, OF _ s g])
       (rule get_payment_status_body_two_runs)
qed

text \<open>
  Claim C3. When the gateway call of \<^verbatim>\<open>create_payment_intent\<close> succeeds, the tool returns the
  sentence describing the created intent whatever the write-back does; when the gateway call of
  \<^verbatim>\<open>get_payment_status\<close> succeeds with an intent that has its amount and currency, the tool
  returns the status sentence whatever the write-back does. If \<^verbatim>\<open>insert_payment\<close> raises \<open>e\<close>
  (after its own retries), the only trace is one more log line carrying \<open>e\<close>. In every case the
  value returned by either tool is the same in two worlds that agree on the gateway, however
  their stores behave.
\<close>

theorem write_back_failure_is_swallowed:
  "(truthy (STRIPE_SECRET_KEY cfg) \<and> stripe_reply w (stripe_calls w) = Inr intent \<longrightarrow>
      fst (create_payment_intent cfg amount cur email w) =
        Inr (''Created payment intent.'' @ [CHR 0x0A]
             @ ''ID: '' @ intent_id intent @ [CHR 0x0A]
             @ ''Status: '' @ intent_status intent @ [CHR 0x0A]
             @ ''Amount: '' @ format_2f amount @ '' '' @ upper cur @ [CHR 0x0A]
             @ ''Client secret (for frontend): '' @ client_secret intent)
    \<and> (insert_payment cfg (intent_id intent) (py_round (amount * 100)) (Some cur) (Some email)
          (intent_status intent) (w\<lparr>stripe_calls := Suc (stripe_calls w)\<rparr>) = (Inl e, w') \<longrightarrow>
        snd (create_payment_intent cfg amount cur email w)
          = write_back_except ''create_payment_intent'' e w'))
   \<and> (truthy (STRIPE_SECRET_KEY cfg) \<and> stripe_reply w (stripe_calls w) = Inr intent
      \<and> intent_amount intent = Some a \<and> intent_currency intent = Some c \<longrightarrow>
      fst (get_payment_status cfg pid w) =
        Inr (''Payment intent '' @ intent_id intent @ '' has status ''
             @ quoted (intent_status intent) @ ''. Amount: ''
             @ format_2f (of_int a / 100) @ '' '' @ upper c @ ''.'')
    \<and> (insert_payment cfg (intent_id intent) a (intent_currency intent) (receipt_email intent)
          (intent_status intent) (w\<lparr>stripe_calls := Suc (stripe_calls w)\<rparr>) = (Inl e, w') \<longrightarrow>
        snd (get_payment_status cfg pid w)
          = write_back_except ''get_payment_status'' e w'))
   \<and> (stripe_reply w = stripe_reply v \<and> stripe_calls w = stripe_calls v \<longrightarrow>
        fst (create_payment_intent cfg amount cur email w)
          = fst (create_payment_intent cfg amount cur email v)
      \<and> fst (get_payment_status cfg pid w) = fst (get_payment_status cfg pid v))
   \<and> log (write_back_except fn e w')
       = log w' @ [((if is_psycopg2_error e then ''DB Error in '' else ''Unexpected DB error in '')
                     @ fn @ '': %s'', e)]"
proof -
  have c: "create_payment_intent cfg amount cur email w
             = create_payment_intent_body cfg amount cur email w"
    if "truthy (STRIPE_SECRET_KEY cfg)" "stripe_reply w (stripe_calls w) = Inr intent"
    unfolding create_payment_intent_def
    by (rule retry_returns_at_once[where f = "create_payment_intent_body cfg amount cur email"
          and w = w, OF create_payment_intent_body_gateway_ok[OF that, of amount cur email],
          unfolded create_payment_intent_body_gateway_ok[OF that, of amount cur email, symmetric]])
  have s: "get_payment_status cfg pid w = get_payment_status_body cfg pid w"
    if "truthy (STRIPE_SECRET_KEY cfg)" "stripe_reply w (stripe_calls w) = Inr intent"
      "intent_amount intent = Some a" "intent_currency intent = Some c"
    unfolding get_payment_status_def
    by (rule retry_returns_at_once[where f = "get_payment_status_body cfg pid"
          and w = w, OF get_payment_status_body_gateway_ok[OF that, of pid],
          unfolded get_payment_status_body_gateway_ok[OF that, of pid, symmetric]])
  have l: "log (write_back_except fn e w')
       = log w' @ [((if is_psycopg2_error e then ''DB Error in '' else ''Unexpected DB error in '')
                     @ fn @ '': %s'', e)]"
    by (simp add: write_back_except_def logger_error_def)
  note t = payment_tools_two_runs[where w = w and v = v and cfg = cfg]
  show ?thesis
    using c s l t create_payment_intent_body_gateway_ok[of cfg w intent amount cur email]
      get_payment_status_body_gateway_ok[of cfg w intent a c pid]
    by (auto simp del: append.simps)
qed


theorem write_back_failure_is_swallowed_witness:
  "truthy (STRIPE_SECRET_KEY sample_config)
   \<and> stripe_reply outage_world (stripe_calls outage_world) = Inr sample_intent
   \<and> intent_amount sample_intent = Some 999 \<and> intent_currency sample_intent = Some ''usd''
   \<and> fst (insert_payment sample_config ''pi_1'' 999 (Some ''usd'') (Some ''test@example.com'')
             ''requires_payment_method'' (outage_world\<lparr>stripe_calls := Suc 0\<rparr>))
       = Inl (RetryError (RetryError Psycopg2_Error))
   \<and> fst (create_payment_intent sample_config (999 / 100) ''usd'' ''test@example.com'' outage_world)
       = Inr (''Created payment intent.'' @ [CHR 0x0A] @ ''ID: pi_1'' @ [CHR 0x0A]
              @ ''Status: requires_payment_method'' @ [CHR 0x0A] @ ''Amount: 9.99 USD''
              @ [CHR 0x0A] @ ''Client secret (for frontend): pi_1_secret'')
   \<and> last (log (snd (create_payment_intent sample_config (999 / 100) ''usd''
                        ''test@example.com'' outage_world)))
       = (''Unexpected DB error in create_payment_intent: %s'',
          RetryError (RetryError Psycopg2_Error))
   \<and> fst (get_payment_status sample_config ''pi_1'' outage_world)
       = Inr (''Payment intent pi_1 has status '' @ quoted ''requires_payment_method''
              @ ''. Amount: 9.99 USD.'')"
proof -
  have e1: "truthy (STRIPE_SECRET_KEY sample_config)"
    by code_simp
  have e2: "stripe_reply outage_world (stripe_calls outage_world) = Inr sample_intent"
    by (simp add: outage_world_def sample_world_def)
  have e3: "fst (insert_payment sample_config ''pi_1'' 999 (Some ''usd'') (Some ''test@example.com'')
             ''requires_payment_method'' (outage_world\<lparr>stripe_calls := Suc 0\<rparr>))
       = Inl (RetryError (RetryError Psycopg2_Error))"
    by code_simp
  have e4: "py_round (999 / 100 * 100) = 999" "format_2f (999 / 100) = ''9.99''"
    "format_2f (of_int 999 / 100) = ''9.99''" "upper ''usd'' = ''USD''"
    by code_simp+
  have e5: "stripe_calls outage_world = 0"
    by (simp add: outage_world_def sample_world_def)
  have e6: "insert_payment sample_config ''pi_1'' 999 (Some ''usd'') (Some ''test@example.com'')
             ''requires_payment_method'' (outage_world\<lparr>stripe_calls := Suc 0\<rparr>)
       = (Inl (RetryError (RetryError Psycopg2_Error)),
          snd (insert_payment sample_config ''pi_1'' 999 (Some ''usd'') (Some ''test@example.com'')
             ''requires_payment_method'' (outage_world\<lparr>stripe_calls := Suc 0\<rparr>)))"
    using e3 by (metis prod.collapse)
  show ?thesis
    using write_back_failure_is_swallowed[of sample_config outage_world sample_intent "999 / 100"
        "''usd''" "''test@example.com''" "RetryError (RetryError Psycopg2_Error)"
        "snd (insert_payment sample_config ''pi_1'' 999 (Some ''usd'') (Some ''test@example.com'')
             ''requires_payment_method'' (outage_world\<lparr>stripe_calls := Suc 0\<rparr>))"
        999 "''usd''" "''pi_1''" outage_world "''create_payment_intent''"]
      e1 e2 e3 e4 e5 e6
    by (simp add: sample_intent_def)
qed

lemma body_gateway_error:
  assumes k: "truthy (STRIPE_SECRET_KEY cfg)" and g: "stripe_reply w (stripe_calls w) = Inl e"
  shows "create_payment_intent_body cfg amount cur email w
           = stripe_except ''create_payment_intent''
               ''Sorry, I couldn't process your payment request right now. '' e
               (w\<lparr>stripe_calls := Suc (stripe_calls w)\<rparr>)"
    and "get_payment_status_body cfg pid w
           = stripe_except ''get_payment_status''
               ''Sorry, I couldn't retrieve the payment status right now. '' e
               (w\<lparr>stripe_calls := Suc (stripe_calls w)\<rparr>)"
  using k g
  by (simp_all add: create_payment_intent_body_def get_payment_status_body_def stripe_call_def
      Let_def)

lemma stripe_except_returns:
  "stripe_except fn t e w
     = (Inr (if e = APIConnectionError then ''Payment service is temporarily unavailable.''
             else if is_stripe_error e
             then ''Payment service error occurred. Please try again later.''
             else t @ ''The payment system is temporarily unavailable. Please try again later.''),
        snd (stripe_except fn t e w))"
  by (simp add: stripe_except_def)

lemma stripe_except_world:
  "stripe_calls (snd (stripe_except fn t e w)) = stripe_calls w"
  "slept (snd (stripe_except fn t e w)) = slept w"
  "db_calls (snd (stripe_except fn t e w)) = db_calls w"
  by (simp_all add: stripe_except_def logger_error_def)

text \<open>
  Claim C5, evaluated on the code. With the key configured, when the gateway call raises any
  exception \<open>e\<close>, be it a connection error, a rate limit, a declined card or an invalid
  request, each payment tool returns the sentence of the matching \<^verbatim>\<open>except\<close> clause after that
  one gateway call: the call counter advances by one and the wrapper does not sleep. The claim
  asks for connection errors and transient errors to be retried up to the attempt bound; the
  \<^verbatim>\<open>except\<close> clauses return inside the decorated function, so the decorator never sees an
  exception from the gateway.
\<close>

theorem gateway_error_single_attempt:
  "truthy (STRIPE_SECRET_KEY cfg) \<and> stripe_reply w (stripe_calls w) = Inl e \<longrightarrow>
     fst (create_payment_intent cfg amount cur email w)
       = Inr (if e = APIConnectionError then ''Payment service is temporarily unavailable.''
              else if is_stripe_error e
              then ''Payment service error occurred. Please try again later.''
              else ''Sorry, I couldn't process your payment request right now. ''
                   @ ''The payment system is temporarily unavailable. Please try again later.'')
   \<and> stripe_calls (snd (create_payment_intent cfg amount cur email w)) = Suc (stripe_calls w)
   \<and> slept (snd (create_payment_intent cfg amount cur email w)) = slept w
   \<and> fst (get_payment_status cfg pid w)
       = Inr (if e = APIConnectionError then ''Payment service is temporarily unavailable.''
              else if is_stripe_error e
              then ''Payment service error occurred. Please try again later.''
              else ''Sorry, I couldn't retrieve the payment status right now. ''
                   @ ''The payment system is temporarily unavailable. Please try again later.'')
   \<and> stripe_calls (snd (get_payment_status cfg pid w)) = Suc (stripe_calls w)
   \<and> slept (snd (get_payment_status cfg pid w)) = slept w"
proof (intro impI)
  assume h: "truthy (STRIPE_SECRET_KEY cfg) \<and> stripe_reply w (stripe_calls w) = Inl e"
  then have k: "truthy (STRIPE_SECRET_KEY cfg)" and g: "stripe_reply w (stripe_calls w) = Inl e"
    by simp_all
  let ?w1 = "w\<lparr>stripe_calls := Suc (stripe_calls w)\<rparr>"
  let ?c = "stripe_except ''create_payment_intent''
               ''Sorry, I couldn't process your payment request right now. '' e ?w1"
  let ?s = "stripe_except ''get_payment_status''
               ''Sorry, I couldn't retrieve the payment status right now. '' e ?w1"
  have bc: "create_payment_intent_body cfg amount cur email w = (fst ?c, snd ?c)"
    using body_gateway_error(1)[OF k g] by simp
  have bs: "get_payment_status_body cfg pid w = (fst ?s, snd ?s)"
    using body_gateway_error(2)[OF k g] by simp
  have fc: "fst ?c = Inr (if e = APIConnectionError then ''Payment service is temporarily unavailable.''
              else if is_stripe_error e
              then ''Payment service error occurred. Please try again later.''
              else ''Sorry, I couldn't process your payment request right now. ''
                   @ ''The payment system is temporarily unavailable. Please try again later.'')"
    by (subst stripe_except_returns) simp
  have fs: "fst ?s = Inr (if e = APIConnectionError then ''Payment service is temporarily unavailable.''
              else if is_stripe_error e
              then ''Payment service error occurred. Please try again later.''
              else ''Sorry, I couldn't retrieve the payment status right now. ''
                   @ ''The payment system is temporarily unavailable. Please try again later.'')"
    by (subst stripe_except_returns) simp
  have c: "create_payment_intent cfg amount cur email w = (fst ?c, snd ?c)"
    unfolding create_payment_intent_def
    by (rule retry_returns_at_once[where f = "create_payment_intent_body cfg amount cur email"
          and w = w, OF bc[unfolded fc], folded fc])
  have s: "get_payment_status cfg pid w = (fst ?s, snd ?s)"
    unfolding get_payment_status_def
    by (rule retry_returns_at_once[where f = "get_payment_status_body cfg pid"
          and w = w, OF bs[unfolded fs], folded fs])
  show "fst (create_payment_intent cfg amount cur email w)
       = Inr (if e = APIConnectionError then ''Payment service is temporarily unavailable.''
              else if is_stripe_error e
              then ''Payment service error occurred. Please try again later.''
              else ''Sorry, I couldn't process your payment request right now. ''
                   @ ''The payment system is temporarily unavailable. Please try again later.'')
   \<and> stripe_calls (snd (create_payment_intent cfg amount cur email w)) = Suc (stripe_calls w)
   \<and> slept (snd (create_payment_intent cfg amount cur email w)) = slept w
   \<and> fst (get_payment_status cfg pid w)
       = Inr (if e = APIConnectionError then ''Payment service is temporarily unavailable.''
              else if is_stripe_error e
              then ''Payment service error occurred. Please try again later.''
              else ''Sorry, I couldn't retrieve the payment status right now. ''
                   @ ''The payment system is temporarily unavailable. Please try again later.'')
   \<and> stripe_calls (snd (get_payment_status cfg pid w)) = Suc (stripe_calls w)
   \<and> slept (snd (get_payment_status cfg pid w)) = slept w"
    unfolding c s fst_conv snd_conv stripe_except_world fc fs by simp
qed

theorem gateway_error_single_attempt_witness:
  "truthy (STRIPE_SECRET_KEY sample_config)
   \<and> stripe_reply flaky_gateway_world (stripe_calls flaky_gateway_world) = Inl APIConnectionError
   \<and> stripe_reply flaky_gateway_world (Suc (stripe_calls flaky_gateway_world)) = Inr sample_intent
   \<and> fst (create_payment_intent sample_config (999 / 100) ''usd'' ''test@example.com''
             flaky_gateway_world)
       = Inr ''Payment service is temporarily unavailable.''
   \<and> stripe_calls (snd (create_payment_intent sample_config (999 / 100) ''usd''
                            ''test@example.com'' flaky_gateway_world)) = 1
   \<and> slept (snd (create_payment_intent sample_config (999 / 100) ''usd''
                            ''test@example.com'' flaky_gateway_world)) = []
   \<and> fst (get_payment_status sample_config ''pi_1'' flaky_gateway_world)
       = Inr ''Payment service is temporarily unavailable.''
   \<and> stripe_calls (snd (get_payment_status sample_config ''pi_1'' flaky_gateway_world)) = 1"
proof -
  have e1: "truthy (STRIPE_SECRET_KEY sample_config)"
    by code_simp
  have e2: "stripe_reply flaky_gateway_world (stripe_calls flaky_gateway_world)
              = Inl APIConnectionError"
    "stripe_reply flaky_gateway_world (Suc (stripe_calls flaky_gateway_world)) = Inr sample_intent"
    "stripe_calls flaky_gateway_world = 0" "slept flaky_gateway_world = []"
    by (simp_all add: flaky_gateway_world_def sample_world_def)
  show ?thesis
    using gateway_error_single_attempt[of sample_config flaky_gateway_world APIConnectionError
        "999 / 100" "''usd''" "''test@example.com''" "''pi_1''"] e1 e2
    by simp
qed

lemma connect_unset:
  "\<not> truthy (DATABASE_URL cfg) \<Longrightarrow>
   connect cfg w = (Inl (RuntimeError ''DATABASE_URL is not set''), w)"
  by (simp add: connect_def)

lemma wait_exponential_tenacity:
  "wait_exponential tenacity_policy (Suc 0) = 1 / 5"
  "wait_exponential tenacity_policy (Suc (Suc 0)) = 2 / 5"
  by (simp_all add: wait_exponential_def tenacity_policy_def)

lemma retry_call_always_failing:
  assumes "\<And>w. f w = (Inl e, h w)"
  shows "retry_call tenacity_policy f w =
     ((Inl (RetryError e), \<lparr>attempt_number = 3, delays = [1 / 5, 2 / 5]\<rparr>),
      h (sleep (2 / 5) (h (sleep (1 / 5) (h w)))))"
proof -
  have a: "attempts tenacity_policy = 3" by (simp add: tenacity_policy_def)
  have "retry_loop tenacity_policy f (Suc (Suc (Suc 0))) [1 / 5, 2 / 5]
          (sleep (2 / 5) (h (sleep (1 / 5) (h w))))
      = ((Inl (RetryError e), \<lparr>attempt_number = Suc (Suc (Suc 0)), delays = [1 / 5, 2 / 5]\<rparr>),
         h (sleep (2 / 5) (h (sleep (1 / 5) (h w)))))"
    by (rule retry_loop_Inl_stop[where f = f, OF assms(1)]) (simp add: a)
  moreover have "retry_loop tenacity_policy f (Suc (Suc 0)) [1 / 5] (sleep (1 / 5) (h w))
      = retry_loop tenacity_policy f (Suc (Suc (Suc 0))) [1 / 5, 2 / 5]
          (sleep (2 / 5) (h (sleep (1 / 5) (h w))))"
    using retry_loop_Inl_again[where f = f and p = tenacity_policy and n = "Suc (Suc 0)"
        and ds = "[1 / 5]" and w = "sleep (1 / 5) (h w)", OF assms(1)]
    by (simp add: a wait_exponential_tenacity)
  moreover have "retry_loop tenacity_policy f (Suc 0) [] w
      = retry_loop tenacity_policy f (Suc (Suc 0)) [1 / 5] (sleep (1 / 5) (h w))"
    using retry_loop_Inl_again[where f = f and p = tenacity_policy and n = "Suc 0" and ds = "[]"
        and w = w, OF assms(1)]
    by (simp add: a wait_exponential_tenacity)
  ultimately show ?thesis
    by (simp add: retry_call_def eval_nat_numeral)
qed

lemma retry_always_failing:
  assumes "\<And>w. f w = (Inl e, h w)"
  shows "retry tenacity_policy f w =
     (Inl (RetryError e), h (sleep (2 / 5) (h (sleep (1 / 5) (h w)))))"
  using retry_call_always_failing[where f = f and h = h, OF assms] by (simp add: retry_def)

lemma get_db_unset:
  assumes "\<not> truthy (DATABASE_URL cfg)"
  shows "get_db cfg w =
     (Inl (RetryError (RuntimeError ''DATABASE_URL is not set'')),
      logger_error ''Unexpected error connecting to database: %s''
        (RetryError (RuntimeError ''DATABASE_URL is not set'')) (sleep (2 / 5) (sleep (1 / 5) w)))"
  using retry_always_failing[where f = "connect cfg" and h = "\<lambda>w. w", OF connect_unset[OF assms]]
  by (simp add: get_db_def)

lemma db_try_unset:
  assumes "\<not> truthy (DATABASE_URL cfg)"
  shows "db_try fn cfg stmt w =
     (Inl (RetryError (RuntimeError ''DATABASE_URL is not set'')),
      logger_error (''Unexpected error in '' @ fn @ '': %s'')
        (RetryError (RuntimeError ''DATABASE_URL is not set''))
        (logger_error ''Unexpected error connecting to database: %s''
          (RetryError (RuntimeError ''DATABASE_URL is not set''))
          (sleep (2 / 5) (sleep (1 / 5) w))))"
  by (simp add: db_try_def get_db_unset[OF assms] reraise_logged_def)

lemma retried_db_try_unset:
  assumes "\<not> truthy (DATABASE_URL cfg)"
  shows "fst (retry tenacity_policy (db_try fn cfg stmt) w)
           = Inl (RetryError (RetryError (RuntimeError ''DATABASE_URL is not set'')))"
    and "slept (snd (retry tenacity_policy (db_try fn cfg stmt) w))
           = slept w @ [1 / 5, 2 / 5, 1 / 5, 1 / 5, 2 / 5, 2 / 5, 1 / 5, 2 / 5]"
    and "db_calls (snd (retry tenacity_policy (db_try fn cfg stmt) w)) = db_calls w"
  using retry_always_failing[where f = "db_try fn cfg stmt", OF db_try_unset[OF assms]]
  by (simp_all add: sleep_def logger_error_def)

text \<open>
  Claim C4, evaluated on the code. With \<^verbatim>\<open>STRIPE_SECRET_KEY\<close> unset, both payment tools return
  the configuration sentence at once and leave the world as it was: no gateway call, no sleep.
  With \<^verbatim>\<open>DATABASE_URL\<close> unset, the \<^verbatim>\<open>RuntimeError\<close> is raised inside the retried connect
  function: the wrapper of \<^verbatim>\<open>get_db\<close> makes 3 attempts with delays 0.2 s and 0.4 s, and the
  wrapper of the calling query or insert repeats that 3 times, so a persistence call sleeps 8
  times and ends in a \<^verbatim>\<open>RetryError\<close> around a \<^verbatim>\<open>RetryError\<close>, without any driver operation; the
  tool turns it into \<^verbatim>\<open>Unexpected error occurred.\<close> The claim asks for a failure on the first
  attempt with no retry.
\<close>

theorem missing_configuration_behaviour:
  "(\<not> truthy (STRIPE_SECRET_KEY cfg) \<longrightarrow>
      create_payment_intent cfg amount cur email w
        = (Inr ''ERROR: Stripe secret key is not configured.'', w)
    \<and> get_payment_status cfg pid w = (Inr ''ERROR: Stripe secret key is not configured.'', w))
   \<and> (\<not> truthy (DATABASE_URL cfg) \<longrightarrow>
      retry_call tenacity_policy (connect cfg) w
        = ((Inl (RetryError (RuntimeError ''DATABASE_URL is not set'')),
            \<lparr>attempt_number = 3, delays = [1 / 5, 2 / 5]\<rparr>),
           sleep (2 / 5) (sleep (1 / 5) w))
    \<and> fst (query_product_by_name cfg name w)
        = Inl (RetryError (RetryError (RuntimeError ''DATABASE_URL is not set'')))
    \<and> slept (snd (query_product_by_name cfg name w))
        = slept w @ [1 / 5, 2 / 5, 1 / 5, 1 / 5, 2 / 5, 2 / 5, 1 / 5, 2 / 5]
    \<and> db_calls (snd (query_product_by_name cfg name w)) = db_calls w
    \<and> fst (insert_payment cfg pid cents c mail st w)
        = Inl (RetryError (RetryError (RuntimeError ''DATABASE_URL is not set'')))
    \<and> slept (snd (insert_payment cfg pid cents c mail st w))
        = slept w @ [1 / 5, 2 / 5, 1 / 5, 1 / 5, 2 / 5, 2 / 5, 1 / 5, 2 / 5]
    \<and> fst (get_product_info cfg name w) = Inr ''Unexpected error occurred.'')"
proof -
  have k: "create_payment_intent cfg amount cur email w
        = (Inr ''ERROR: Stripe secret key is not configured.'', w)"
    "get_payment_status cfg pid w = (Inr ''ERROR: Stripe secret key is not configured.'', w)"
    if "\<not> truthy (STRIPE_SECRET_KEY cfg)"
  proof -
    have "create_payment_intent_body cfg amount cur email w
        = (Inr ''ERROR: Stripe secret key is not configured.'', w)"
      using that by (simp add: create_payment_intent_body_def)
    then show "create_payment_intent cfg amount cur email w
        = (Inr ''ERROR: Stripe secret key is not configured.'', w)"
      unfolding create_payment_intent_def
      by (rule retry_returns_at_once[where f = "create_payment_intent_body cfg amount cur email"])
    have "get_payment_status_body cfg pid w
        = (Inr ''ERROR: Stripe secret key is not configured.'', w)"
      using that by (simp add: get_payment_status_body_def)
    then show "get_payment_status cfg pid w
        = (Inr ''ERROR: Stripe secret key is not configured.'', w)"
      unfolding get_payment_status_def
      by (rule retry_returns_at_once[where f = "get_payment_status_body cfg pid"])
  qed
  have d1: "retry_call tenacity_policy (connect cfg) w
        = ((Inl (RetryError (RuntimeError ''DATABASE_URL is not set'')),
            \<lparr>attempt_number = 3, delays = [1 / 5, 2 / 5]\<rparr>),
           sleep (2 / 5) (sleep (1 / 5) w))"
    if "\<not> truthy (DATABASE_URL cfg)"
    using retry_call_always_failing[where f = "connect cfg" and h = "\<lambda>w. w",
        OF connect_unset[OF that]] .
  have d2: "fst (get_product_info cfg name w) = Inr ''Unexpected error occurred.''"
    if h: "\<not> truthy (DATABASE_URL cfg)"
  proof -
    obtain w' where "query_product_by_name cfg name w
        = (Inl (RetryError (RetryError (RuntimeError ''DATABASE_URL is not set''))), w')"
      using retried_db_try_unset(1)[OF h, of "''query_product_by_name''" "select_product name" w]
      by (metis prod.collapse query_product_by_name_def)
    then show ?thesis
      by (simp add: get_product_info_def tool_except_def)
  qed
  show ?thesis
    unfolding query_product_by_name_def insert_payment_def
    by (simp add: k d1 d2 retried_db_try_unset)
qed

theorem missing_configuration_behaviour_witness:
  "\<not> truthy (STRIPE_SECRET_KEY unconfigured) \<and> \<not> truthy (DATABASE_URL unconfigured)
   \<and> create_payment_intent unconfigured (999 / 100) ''usd'' ''test@example.com'' sample_world
       = (Inr ''ERROR: Stripe secret key is not configured.'', sample_world)
   \<and> snd (fst (retry_call tenacity_policy (connect unconfigured) sample_world))
       = \<lparr>attempt_number = 3, delays = [1 / 5, 2 / 5]\<rparr>
   \<and> fst (query_product_by_name unconfigured ''iPhone 15 Pro'' sample_world)
       = Inl (RetryError (RetryError (RuntimeError ''DATABASE_URL is not set'')))
   \<and> slept (snd (query_product_by_name unconfigured ''iPhone 15 Pro'' sample_world))
       = [1 / 5, 2 / 5, 1 / 5, 1 / 5, 2 / 5, 2 / 5, 1 / 5, 2 / 5]
   \<and> fst (get_product_info unconfigured ''iPhone 15 Pro'' sample_world)
       = Inr ''Unexpected error occurred.''"
proof -
  have e: "\<not> truthy (STRIPE_SECRET_KEY unconfigured)" "\<not> truthy (DATABASE_URL unconfigured)"
    "slept sample_world = []"
    by (simp_all add: unconfigured_def truthy_def sample_world_def)
  show ?thesis
    using missing_configuration_behaviour[of unconfigured "999 / 100" "''usd''"
        "''test@example.com''" sample_world _ "''iPhone 15 Pro''"] e
    by simp
qed

lemma tool_except_returns: "\<exists>s. fst (tool_except fn e w) = Inr s"
  by (simp add: tool_except_def)

lemma lookup_tools_return:
  "\<exists>s. fst (get_product_info cfg name w) = Inr s"
  "\<exists>s. fst (get_inventory_info cfg name w) = Inr s"
  "\<exists>s. fst (get_shipping_estimate cfg name dest w) = Inr s"
  "\<exists>s. fst (get_tracking_info cfg number w) = Inr s"
  by (auto simp: get_product_info_def get_inventory_info_def get_shipping_estimate_def
      get_tracking_info_def tool_except_def split: prod.splits sum.splits option.splits)

lemma create_payment_intent_body_returns:
  "\<exists>s. fst (create_payment_intent_body cfg amount cur email w) = Inr s"
  by (auto simp: create_payment_intent_body_def stripe_except_def Let_def
      split: prod.splits sum.splits)

lemma create_payment_intent_returns:
  "\<exists>s. fst (create_payment_intent cfg amount cur email w) = Inr s"
proof -
  obtain s where "fst (create_payment_intent_body cfg amount cur email w) = Inr s"
    using create_payment_intent_body_returns by blast
  then have "create_payment_intent_body cfg amount cur email w
      = (Inr s, snd (create_payment_intent_body cfg amount cur email w))"
    by (metis prod.collapse)
  from retry_returns_at_once[where f = "create_payment_intent_body cfg amount cur email", OF this]
  show ?thesis by (simp add: create_payment_intent_def)
qed

text \<open>
  Claim C2, evaluated on the code. The four lookup tools and \<^verbatim>\<open>create_payment_intent\<close> return
  a string for every input and every behaviour of the store and the gateway. \<^verbatim>\<open>get_payment_status\<close>
  does not: when the retrieved intent has no amount, the final f-string raises \<^verbatim>\<open>TypeError\<close>
  outside every \<^verbatim>\<open>try\<close>; the decorator runs the function three times (three gateway calls)
  and then raises \<^verbatim>\<open>RetryError\<close> to the caller. An intent without currency ends the same way
  with \<^verbatim>\<open>AttributeError\<close>.
\<close>

theorem get_payment_status_raises:
  "(\<exists>s. fst (get_product_info cfg name w) = Inr s)
   \<and> (\<exists>s. fst (get_inventory_info cfg name w) = Inr s)
   \<and> (\<exists>s. fst (get_shipping_estimate cfg name dest w) = Inr s)
   \<and> (\<exists>s. fst (get_tracking_info cfg number w) = Inr s)
   \<and> (\<exists>s. fst (create_payment_intent cfg amount cur email w) = Inr s)
   \<and> fst (get_payment_status sample_config ''pi_1'' amountless_world) = Inl (RetryError TypeError)
   \<and> stripe_calls (snd (get_payment_status sample_config ''pi_1'' amountless_world)) = 3
   \<and> fst (get_payment_status sample_config ''pi_1'' currencyless_world)
       = Inl (RetryError AttributeError)"
proof -
  have a: "fst (get_payment_status sample_config ''pi_1'' amountless_world)
             = Inl (RetryError TypeError)"
    by code_simp
  have b: "stripe_calls (snd (get_payment_status sample_config ''pi_1'' amountless_world)) = 3"
    by code_simp
  have c: "fst (get_payment_status sample_config ''pi_1'' currencyless_world)
       = Inl (RetryError AttributeError)"
    by code_simp
  show ?thesis
    using lookup_tools_return(1)[of cfg name w] lookup_tools_return(2)[of cfg name w]
      lookup_tools_return(3)[of cfg name dest w] lookup_tools_return(4)[of cfg number w]
      create_payment_intent_returns[of cfg amount cur email w] a b c
    by blast
qed

end
